theory Spec2Isabelle
  imports Complex_Main "HOL-Library.Log_Nat"
begin

section \<open>JavaScript values used by \<^verbatim>\<open>api/pay.js\<close>\<close>

subsection \<open>Numbers\<close>

text \<open>
  A JavaScript Number is an IEEE 754 binary64 value. A finite one is carried by its exact
  rational value (the two zeros are not told apart: nothing in the handler can observe the
  sign of zero). \<open>fl\<close> is the rounding \<open>\<bbbF>(x)\<close> of ECMAScript: the binary64 value
  nearest to the real \<open>x\<close>, ties to the even significand, with 53 significant bits,
  least exponent \<open>2\<^sup>-\<^sup>1\<^sup>0\<^sup>7\<^sup>4\<close> and overflow to an infinity from \<open>2\<^sup>1\<^sup>0\<^sup>2\<^sup>4\<close> on.
  A numeric literal \<open>d\<close> of a program or of a JSON text denotes \<open>fl d\<close>.
\<close>

datatype js_number = NaN | PosInfinity | NegInfinity | Fin rat

definition ilog2 :: "rat \<Rightarrow> int" where
  "ilog2 x = (let (a, b) = quotient_of x; k = bitlen a - bitlen b
              in if 2 powi k \<le> x then k else k - 1)"

definition round_half_even :: "rat \<Rightarrow> int" where
  "round_half_even x =
     (let f = \<lfloor>x\<rfloor>; d = x - of_int f
      in if d < 1 / 2 then f else if 1 / 2 < d then f + 1 else if even f then f else f + 1)"

definition fl :: "rat \<Rightarrow> js_number" where
  "fl x =
     (if x = 0 then Fin 0
      else let e = max (ilog2 \<bar>x\<bar> - 52) (- 1074);
               y = of_int (round_half_even (x / 2 powi e)) * 2 powi e
           in if 2 ^ 1024 \<le> y then PosInfinity
              else if y \<le> - (2 ^ 1024) then NegInfinity
              else Fin y)"

text \<open>\<open>ToNumber\<close> of a property that may be missing: \<open>undefined\<close> becomes \<open>NaN\<close>.\<close>

definition ToNumber :: "js_number option \<Rightarrow> js_number" where
  "ToNumber v = (case v of None \<Rightarrow> NaN | Some n \<Rightarrow> n)"

text \<open>The operator \<open>*\<close> on Numbers (ECMAScript \<open>Number::multiply\<close>).\<close>

fun multiply :: "js_number \<Rightarrow> js_number \<Rightarrow> js_number" where
  "multiply NaN y = NaN"
| "multiply x NaN = NaN"
| "multiply (Fin x) (Fin y) = fl (x * y)"
| "multiply (Fin x) PosInfinity =
     (if x = 0 then NaN else if 0 < x then PosInfinity else NegInfinity)"
| "multiply (Fin x) NegInfinity =
     (if x = 0 then NaN else if 0 < x then NegInfinity else PosInfinity)"
| "multiply PosInfinity (Fin y) =
     (if y = 0 then NaN else if 0 < y then PosInfinity else NegInfinity)"
| "multiply NegInfinity (Fin y) =
     (if y = 0 then NaN else if 0 < y then NegInfinity else PosInfinity)"
| "multiply PosInfinity PosInfinity = PosInfinity"
| "multiply NegInfinity NegInfinity = PosInfinity"
| "multiply PosInfinity NegInfinity = NegInfinity"
| "multiply NegInfinity PosInfinity = NegInfinity"

text \<open>
  \<open>Math.round\<close>: a value that is not finite is returned as it is; otherwise the integer
  nearest to \<open>x\<close>, the one towards \<open>+\<infinity>\<close> at a tie, which is \<open>\<lfloor>x + 1/2\<rfloor>\<close>.
\<close>

fun Math_round :: "js_number \<Rightarrow> js_number" where
  "Math_round (Fin x) = Fin (of_int \<lfloor>x + 1 / 2\<rfloor>)"
| "Math_round x = x"

subsection \<open>Strings\<close>

text \<open>
  A string is a list of characters; a character stands for the code unit of the same
  number, so the strings covered are those over U+0000 .. U+00FF. On that range
  \<open>toLowerCase\<close> moves \<open>A\<close>..\<open>Z\<close> and U+00C0 .. U+00DE (without the sign U+00D7) up by 32,
  and the white space of \<open>\s\<close> and of \<open>trim\<close> is TAB, LF, VT, FF, CR, SPACE and U+00A0.
\<close>

definition lower_char :: "char \<Rightarrow> char" where
  "lower_char c =
     (let n = (of_char c :: nat)
      in if (65 \<le> n \<and> n \<le> 90) \<or> (192 \<le> n \<and> n \<le> 222 \<and> n \<noteq> 215)
         then char_of (n + 32) else c)"

definition toLowerCase :: "string \<Rightarrow> string" where
  "toLowerCase s = map lower_char s"

definition is_space :: "char \<Rightarrow> bool" where
  "is_space c = ((of_char c :: nat) \<in> {9, 10, 11, 12, 13, 32, 160})"

text \<open>\<open>s.replace(/\s+/g, '_')\<close>: every maximal run of white space becomes one underscore.\<close>

function replace_spaces :: "string \<Rightarrow> string" where
  "replace_spaces [] = []"
| "replace_spaces (c # cs) =
     (if is_space c then CHR ''_'' # replace_spaces (dropWhile is_space cs)
      else c # replace_spaces cs)"
  by pat_completeness auto
termination
  by (relation "measure length") (auto simp: length_dropWhile_le less_Suc_eq_le)

definition trim :: "string \<Rightarrow> string" where
  "trim s = rev (dropWhile is_space (rev (dropWhile is_space s)))"

text \<open>\<open>s.split(' ')\<close>: the pieces between single spaces; never the empty array.\<close>

fun split_space :: "string \<Rightarrow> string list" where
  "split_space [] = [[]]"
| "split_space (c # cs) =
     (if c = CHR '' '' then [] # split_space cs
      else (case split_space cs of [] \<Rightarrow> [[c]] | p # ps \<Rightarrow> (c # p) # ps))"

text \<open>\<open>parts.join(' ')\<close>.\<close>

fun join_space :: "string list \<Rightarrow> string" where
  "join_space [] = []"
| "join_space [p] = p"
| "join_space (p # q # ps) = p @ CHR '' '' # join_space (q # ps)"

text \<open>The decimal digits of an integer that is not negative.\<close>

function digits :: "int \<Rightarrow> string" where
  "digits n = (if n < 10 then [char_of (48 + n)] else digits (n div 10) @ [char_of (48 + n mod 10)])"
  by pat_completeness auto
termination
  by (relation "measure nat") auto

declare digits.simps [simp del]

text \<open>
  The text of a Number (ECMAScript \<open>Number::toString\<close>, radix 10). For a finite \<open>x > 0\<close>
  it is made of the integers \<open>s\<close>, \<open>k\<close> and \<open>n\<close> with \<open>10\<^sup>k\<^sup>-\<^sup>1 \<le> s < 10\<^sup>k\<close> and
  \<open>fl (s \<times> 10\<^sup>n\<^sup>-\<^sup>k) = x\<close> for which \<open>k\<close> is least, \<open>s\<close> being the one that makes \<open>s \<times> 10\<^sup>n\<^sup>-\<^sup>k\<close>
  nearest to \<open>x\<close> (the even one of two) when several do: as V8 prints.

  \<open>ilog10 x\<close> is the decimal logarithm of \<open>x\<close> rounded down. \<open>round_trip x k\<close> looks at
  the two numbers of \<open>k\<close> digits around \<open>x\<close>, the multiples \<open>s \<times> 10\<^sup>q\<close> of
  \<open>10\<^sup>q\<close> just below and just above \<open>x\<close> for \<open>q = ilog10 x + 1 - k\<close>, the nearer one first, and
  gives the first that \<open>fl\<close> rounds to \<open>x\<close>. \<open>shortest\<close> tries \<open>k = 1, 2, \<dots>\<close>;
  seventeen digits tell any two binary64 values apart, so that the search ends there.
  The text then follows from the digits of \<open>s\<close> and the position \<open>n\<close> of the decimal
  point: plain digits when \<open>-6 < n \<le> 21\<close>, otherwise with an exponent.
\<close>

definition ilog10 :: "rat \<Rightarrow> int" where
  "ilog10 x = (let (a, b) = quotient_of x;
                   k = int (length (digits a)) - int (length (digits b))
               in if 10 powi k \<le> x then k else k - 1)"

definition round_trip :: "rat \<Rightarrow> nat \<Rightarrow> (int \<times> int) option" where
  "round_trip x k =
     (let q = ilog10 x + 1 - int k;
          near = round_half_even (x / 10 powi q);
          far = 2 * \<lfloor>x / 10 powi q\<rfloor> + 1 - near
      in if fl (of_int near * 10 powi q) = Fin x then Some (near, q)
         else if fl (of_int far * 10 powi q) = Fin x then Some (far, q)
         else None)"

fun shortest :: "rat \<Rightarrow> nat \<Rightarrow> nat \<Rightarrow> int \<times> int" where
  "shortest x k 0 = (round_half_even (x / 10 powi (ilog10 x + 1 - int k)), ilog10 x + 1 - int k)"
| "shortest x k (Suc fuel) =
     (case round_trip x k of Some sq \<Rightarrow> sq | None \<Rightarrow> shortest x (Suc k) fuel)"

definition positive_toString :: "rat \<Rightarrow> string" where
  "positive_toString x =
     (let (s, q) = shortest x 1 16;
          all = digits s;
          ds = rev (dropWhile (\<lambda>c. c = CHR ''0'') (rev all));
          k = int (length ds);
          n = q + int (length all);
          e = n - 1
      in if k \<le> n \<and> n \<le> 21 then ds @ replicate (nat (n - k)) CHR ''0''
         else if 0 < n \<and> n \<le> 21 then take (nat n) ds @ ''.'' @ drop (nat n) ds
         else if - 6 < n \<and> n \<le> 0 then ''0.'' @ replicate (nat (- n)) CHR ''0'' @ ds
         else (if k = 1 then ds else hd ds # ''.'' @ tl ds)
              @ ''e'' @ (if 0 < e then ''+'' else ''-'') @ digits \<bar>e\<bar>)"

fun Number_toString :: "js_number \<Rightarrow> string" where
  "Number_toString NaN = ''NaN''"
| "Number_toString PosInfinity = ''Infinity''"
| "Number_toString NegInfinity = ''-Infinity''"
| "Number_toString (Fin x) =
     (if x = 0 then ''0''
      else if x < 0 then CHR ''-'' # positive_toString (- x)
      else positive_toString x)"

text \<open>\<open>String(v)\<close> and \<open>`${v}`\<close> for a property that may be missing.\<close>

definition String_number :: "js_number option \<Rightarrow> string" where
  "String_number v = (case v of None \<Rightarrow> ''undefined'' | Some n \<Rightarrow> Number_toString n)"

definition String_str :: "string option \<Rightarrow> string" where
  "String_str v = (case v of None \<Rightarrow> ''undefined'' | Some s \<Rightarrow> s)"

subsection \<open>Errors\<close>

text \<open>
  A thrown value: the optional array \<open>errors\<close> of the platform's structured errors, each
  with an optional \<open>detail\<close>, and the \<open>message\<close> every error carries. The errors the
  language itself throws have no \<open>errors\<close>; their messages are worded as V8 words them.
\<close>

record api_error =
  detail :: "string option"

record js_error =
  errors :: "api_error list option"
  message :: string

definition TypeError :: "string \<Rightarrow> js_error" where
  "TypeError m = \<lparr>errors = None, message = m\<rparr>"

definition RangeError :: "string \<Rightarrow> js_error" where
  "RangeError m = \<lparr>errors = None, message = m\<rparr>"

text \<open>\<open>error.errors?.[0]?.detail || error.message\<close>; the empty string is falsy.\<close>

definition error_text :: "js_error \<Rightarrow> string" where
  "error_text error =
     (case errors error of
        None \<Rightarrow> message error
      | Some [] \<Rightarrow> message error
      | Some (e # es) \<Rightarrow>
          (case detail e of
             None \<Rightarrow> message error
           | Some d \<Rightarrow> if d = [] then message error else d))"

text \<open>
  \<open>BigInt(x)\<close> of a Number: its integer value, and unless \<open>x\<close> is integral a \<open>RangeError\<close>
  whose message names the Number.
\<close>

definition not_an_integer :: "js_number \<Rightarrow> js_error" where
  "not_an_integer x =
     RangeError (''The number '' @ Number_toString x
                 @ '' cannot be converted to a BigInt because it is not an integer'')"

fun BigInt :: "js_number \<Rightarrow> js_error + int" where
  "BigInt (Fin x) = (if x = of_int \<lfloor>x\<rfloor> then Inr \<lfloor>x\<rfloor> else Inl (not_an_integer (Fin x)))"
| "BigInt x = Inl (not_an_integer x)"

text \<open>The \<open>TypeError\<close> of destructuring \<open>req.body\<close> (line 74) when it is \<open>undefined\<close> or \<open>null\<close>.\<close>

definition cannot_destructure :: "string \<Rightarrow> js_error" where
  "cannot_destructure what =
     TypeError (''Cannot destructure property 'sourceId' of 'req.body' as it is '' @ what @ ''.'')"


section \<open>The remote platform\<close>

text \<open>
  The requests the handler sends and the replies it reads. Identifiers in replies are
  strings. The environment supplies \<open>SQUARE_LOCATION_ID\<close> and \<open>SQUARE_CATALOG_ITEM_ID\<close>.
\<close>

record config =
  LOCATION_ID :: string
  CATALOG_ITEM_ID :: string

record money =
  money_amount :: int
  money_currency :: string

record line_item =
  li_quantity :: string
  li_catalogObjectId :: string
  li_basePriceMoney :: money
  li_note :: string

record create_customer_request =
  cust_givenName :: string
  cust_familyName :: string
  cust_referenceId :: string
  cust_idempotencyKey :: string

record order_request =
  ord_locationId :: string
  ord_customerId :: "string option"
  ord_lineItems :: "line_item list"
  ord_state :: string
  ord_idempotencyKey :: string

record payment_request =
  pay_sourceId :: "string option"
  pay_idempotencyKey :: string
  pay_amountMoney :: money
  pay_locationId :: string
  pay_orderId :: string
  pay_customerId :: "string option"
  pay_note :: string

datatype call =
    SearchCustomers string
  | CreateCustomer create_customer_request
  | RetrieveCatalogObject string bool
  | CreateOrder order_request
  | CreatePayment payment_request

record customer =
  customer_id :: string

record search_customers_result =
  customers :: "customer list option"

record create_customer_result =
  created_customer :: "customer option"

record variation =
  variation_id :: string

record item_data =
  variations :: "variation list option"

record catalog_object =
  itemData :: "item_data option"

record catalog_result =
  object :: "catalog_object option"

record order =
  order_id :: string

record create_order_result =
  created_order :: "order option"

record payment =
  payment_id :: string
  payment_status :: string

record create_payment_result =
  created_payment :: "payment option"

text \<open>
  What the platform answers to each request: \<open>Inl\<close> is a rejected promise. Within one
  request the handler calls each operation at most once, so an answer per request text is
  as general as an answer per call. \<open>uuid n\<close> is the value of the \<open>n\<close>-th call of
  \<open>crypto.randomUUID()\<close>.
\<close>

record platform =
  searchCustomers :: "string \<Rightarrow> js_error + search_customers_result"
  createCustomer :: "create_customer_request \<Rightarrow> js_error + create_customer_result"
  retrieveCatalogObject :: "string \<Rightarrow> bool \<Rightarrow> js_error + catalog_result"
  createOrder :: "order_request \<Rightarrow> js_error + create_order_result"
  createPayment :: "payment_request \<Rightarrow> js_error + create_payment_result"
  uuid :: "nat \<Rightarrow> string"

text \<open>
  The state threaded through a request: the remote calls made so far, oldest first, and
  the number of identifiers drawn. Console output is not part of it.
\<close>

record state =
  calls :: "call list"
  drawn :: nat

definition start :: state where
  "start = \<lparr>calls = [], drawn = 0\<rparr>"

definition remote :: "call \<Rightarrow> state \<Rightarrow> state" where
  "remote c s = s\<lparr>calls := calls s @ [c]\<rparr>"

definition randomUUID :: "platform \<Rightarrow> state \<Rightarrow> string \<times> state" where
  "randomUUID P s = (uuid P (drawn s), s\<lparr>drawn := Suc (drawn s)\<rparr>)"

section \<open>The request and the response\<close>

text \<open>
  \<open>req.body\<close> is what the platform parsed from the request text; it is \<open>undefined\<close> when
  the request has no text and may be \<open>null\<close>. Nothing checks it. A body that is neither
  has the five properties read at line 74, each of which may be missing (\<open>None\<close> is
  \<open>undefined\<close>); a body that is not an object, a string or a number, has none of them and
  is the object with every property missing. A property that is there has the type the
  checkout request gives it, and a \<open>customerName\<close> that is not a string (\<open>null\<close>, a number)
  is carried as a missing one: on each of them \<open>toLowerCase\<close> throws in the resolver.

  \<open>items\<close> is looked at more closely: it may be missing, \<open>null\<close>, a value that is not an
  array and so has no \<open>map\<close>, or an array. An element of the array is \<open>null\<close> or an object
  whose properties may again be missing; an element that is a string, a number or an
  array has none of the four properties and is the object with every property missing.
\<close>

record item =
  name :: "string option"
  quantity :: "js_number option"
  price :: "js_number option"
  comment :: "string option"

datatype element = ElementNull | Element item

datatype items_value = ItemsUndefined | ItemsNull | ItemsOther | ItemsArray "element list"

record checkout_request =
  sourceId :: "string option"
  amount :: "js_number option"
  customerName :: "string option"
  pickupDate :: "string option"
  items :: items_value

datatype body_value = BodyUndefined | BodyNull | Body checkout_request

record request =
  "method" :: string
  body :: body_value

datatype json_body =
    NoBody
  | MethodError string
  | Failure string
  | Success string string string

record response =
  status :: nat
  headers :: "(string \<times> string) list"
  sent :: json_body


section \<open>The resolvers\<close>

text \<open>
  \<open>getOrCreateCustomer\<close> (lines 15 to 44). Its whole body is one \<open>try\<close>; every throw in
  it, also the \<open>TypeError\<close> of \<open>customerName.toLowerCase()\<close> on \<open>undefined\<close> and of
  \<open>createResponse.result.customer.id\<close> on a reply without customer, ends in \<open>return null\<close>.
  \<open>customer_request_of\<close> is the argument of \<open>createCustomer\<close> (lines 31 to 37), built before
  the call is made: \<open>nameParts[0] || customerName\<close> takes the name itself when the first
  part is empty.
\<close>

definition customer_request_of :: "string \<Rightarrow> string \<Rightarrow> create_customer_request" where
  "customer_request_of customerName' key =
     (let nameParts = split_space (trim customerName');
          first = (case nameParts of [] \<Rightarrow> [] | p # ps \<Rightarrow> p)
      in \<lparr>cust_givenName = (if first = [] then customerName' else first),
          cust_familyName = join_space (tl nameParts),
          cust_referenceId = replace_spaces (toLowerCase customerName'),
          cust_idempotencyKey = key\<rparr>)"

definition getOrCreateCustomer :: "platform \<Rightarrow> string option \<Rightarrow> state \<Rightarrow> string option \<times> state" where
  "getOrCreateCustomer P customerName' s =
     (case customerName' of
        None \<Rightarrow> (None, s)
      | Some n \<Rightarrow>
          let exact = replace_spaces (toLowerCase n);
              s1 = remote (SearchCustomers exact) s
          in case searchCustomers P exact of
               Inl error \<Rightarrow> (None, s1)
             | Inr searchResponse \<Rightarrow>
                 (case customers searchResponse of
                    Some (c # cs) \<Rightarrow> (Some (customer_id c), s1)
                  | _ \<Rightarrow>
                      let (key, s2) = randomUUID P s1;
                          r = customer_request_of n key;
                          s3 = remote (CreateCustomer r) s2
                      in case createCustomer P r of
                           Inl error \<Rightarrow> (None, s3)
                         | Inr createResponse \<Rightarrow>
                             (case created_customer createResponse of
                                None \<Rightarrow> (None, s3)
                              | Some c \<Rightarrow> (Some (customer_id c), s3))))"

text \<open>
  \<open>getItemVariationId\<close> (lines 47 to 58); it takes no argument. The test of line 51,
  \<open>item?.itemData?.variations?.length > 0\<close>, fails when the reply has no object, the object
  no \<open>itemData\<close>, the data no \<open>variations\<close>, or when the list is empty.
\<close>

definition getItemVariationId :: "config \<Rightarrow> platform \<Rightarrow> state \<Rightarrow> string option \<times> state" where
  "getItemVariationId cfg P s =
     (let s1 = remote (RetrieveCatalogObject (CATALOG_ITEM_ID cfg) True) s
      in case retrieveCatalogObject P (CATALOG_ITEM_ID cfg) True of
           Inl error \<Rightarrow> (None, s1)
         | Inr response \<Rightarrow>
             (case object response of
                None \<Rightarrow> (None, s1)
              | Some item \<Rightarrow>
                  (case itemData item of
                     None \<Rightarrow> (None, s1)
                   | Some d \<Rightarrow>
                       (case variations d of
                          None \<Rightarrow> (None, s1)
                        | Some [] \<Rightarrow> (None, s1)
                        | Some (v # vs) \<Rightarrow> (Some (variation_id v), s1)))))"

section \<open>The handler\<close>

text \<open>
  The function given to \<open>items.map\<close> (lines 89 to 97). Reading \<open>item.quantity\<close> of an
  element that is \<open>null\<close> throws; \<open>BigInt\<close> may throw.
\<close>

definition lineItem :: "string \<Rightarrow> element \<Rightarrow> js_error + line_item" where
  "lineItem itemVariationId el =
     (case el of
        ElementNull \<Rightarrow> Inl (TypeError ''Cannot read properties of null (reading 'quantity')'')
      | Element item \<Rightarrow>
          (case BigInt (Math_round (multiply (ToNumber (price item)) (Fin 100))) of
             Inl error \<Rightarrow> Inl error
           | Inr cents \<Rightarrow>
               Inr \<lparr>li_quantity = String_number (quantity item),
                    li_catalogObjectId = itemVariationId,
                    li_basePriceMoney = \<lparr>money_amount = cents, money_currency = ''USD''\<rparr>,
                    li_note = String_str (name item) @
                      (case comment item of
                         None \<Rightarrow> []
                       | Some c \<Rightarrow> if c = [] then [] else '' - '' @ c)\<rparr>))"

text \<open>\<open>Array.prototype.map\<close> with a function that may throw: the first throw ends it.\<close>

fun map_throwing :: "('a \<Rightarrow> js_error + 'b) \<Rightarrow> 'a list \<Rightarrow> js_error + 'b list" where
  "map_throwing f [] = Inr []"
| "map_throwing f (x # xs) =
     (case f x of
        Inl error \<Rightarrow> Inl error
      | Inr y \<Rightarrow> (case map_throwing f xs of Inl error \<Rightarrow> Inl error | Inr ys \<Rightarrow> Inr (y # ys)))"

text \<open>
  \<open>items.map(...)\<close> of line 89: reading \<open>map\<close> of \<open>undefined\<close> or of \<open>null\<close> throws, and so does
  calling the \<open>map\<close> of a value that has none.
\<close>

definition lineItems :: "string \<Rightarrow> items_value \<Rightarrow> js_error + line_item list" where
  "lineItems itemVariationId items' =
     (case items' of
        ItemsUndefined \<Rightarrow> Inl (TypeError ''Cannot read properties of undefined (reading 'map')'')
      | ItemsNull \<Rightarrow> Inl (TypeError ''Cannot read properties of null (reading 'map')'')
      | ItemsOther \<Rightarrow> Inl (TypeError ''items.map is not a function'')
      | ItemsArray elements \<Rightarrow> map_throwing (lineItem itemVariationId) elements)"

text \<open>The argument of \<open>createOrder\<close> (lines 85 to 101).\<close>

definition order_request_of ::
  "config \<Rightarrow> string option \<Rightarrow> line_item list \<Rightarrow> string \<Rightarrow> order_request" where
  "order_request_of cfg customerId lis key =
     \<lparr>ord_locationId = LOCATION_ID cfg,
      ord_customerId = customerId,
      ord_lineItems = lis,
      ord_state = ''OPEN'',
      ord_idempotencyKey = key\<rparr>"

text \<open>The argument of \<open>createPayment\<close> (lines 106 to 117), once its amount is converted.\<close>

definition payment_request_of ::
  "config \<Rightarrow> checkout_request \<Rightarrow> string option \<Rightarrow> order \<Rightarrow> string \<Rightarrow> int \<Rightarrow> payment_request" where
  "payment_request_of cfg b customerId order key cents =
     \<lparr>pay_sourceId = sourceId b,
      pay_idempotencyKey = key,
      pay_amountMoney = \<lparr>money_amount = cents, money_currency = ''USD''\<rparr>,
      pay_locationId = LOCATION_ID cfg,
      pay_orderId = order_id order,
      pay_customerId = customerId,
      pay_note = ''Pickup: '' @ String_str (pickupDate b)\<rparr>"

text \<open>
  The body of the \<open>try\<close> of the handler after the customer is resolved (lines 84 to 124):
  \<open>Inl\<close> is the error that reaches the \<open>catch\<close>, \<open>Inr\<close> the object given to \<open>res.json\<close>.
  The properties of an object literal are evaluated in the order they are written: the
  line items before the identifier of the order; the identifier of the payment, then its
  amount, then \<open>order.id\<close>.
\<close>

definition place_order ::
  "config \<Rightarrow> platform \<Rightarrow> checkout_request \<Rightarrow> string \<Rightarrow> string option \<Rightarrow> state
     \<Rightarrow> (js_error + json_body) \<times> state" where
  "place_order cfg P b itemVariationId customerId s1 =
     (case lineItems itemVariationId (items b) of
        Inl error \<Rightarrow> (Inl error, s1)
      | Inr lis \<Rightarrow>
          let (key, s2) = randomUUID P s1;
              req = order_request_of cfg customerId lis key;
              s3 = remote (CreateOrder req) s2
          in case createOrder P req of
               Inl error \<Rightarrow> (Inl error, s3)
             | Inr orderResponse \<Rightarrow>
                 let (key', s4) = randomUUID P s3
                 in case BigInt (Math_round (multiply (ToNumber (amount b)) (Fin 100))) of
                      Inl error \<Rightarrow> (Inl error, s4)
                    | Inr cents \<Rightarrow>
                        (case created_order orderResponse of
                           None \<Rightarrow>
                             (Inl (TypeError ''Cannot read properties of undefined (reading 'id')''), s4)
                         | Some order \<Rightarrow>
                             let pay = payment_request_of cfg b customerId order key' cents;
                                 s5 = remote (CreatePayment pay) s4
                             in case createPayment P pay of
                                  Inl error \<Rightarrow> (Inl error, s5)
                                | Inr paymentResponse \<Rightarrow>
                                    (case created_payment paymentResponse of
                                       None \<Rightarrow>
                                         (Inl (TypeError
                                            ''Cannot read properties of undefined (reading 'id')''), s5)
                                     | Some pm \<Rightarrow>
                                         (Inr (Success (payment_id pm) (order_id order)
                                                 (payment_status pm)), s5))))"

text \<open>The whole body of the \<open>try\<close> (lines 82 to 124).\<close>

definition checkout ::
  "config \<Rightarrow> platform \<Rightarrow> checkout_request \<Rightarrow> string \<Rightarrow> state \<Rightarrow> (js_error + json_body) \<times> state" where
  "checkout cfg P b itemVariationId s =
     (let (customerId, s1) = getOrCreateCustomer P (customerName b) s
      in place_order cfg P b itemVariationId customerId s1)"

definition cors :: "(string \<times> string) list" where
  "cors = [(''Access-Control-Allow-Origin'', ''*''),
           (''Access-Control-Allow-Methods'', ''POST, OPTIONS''),
           (''Access-Control-Allow-Headers'', ''Content-Type'')]"

text \<open>
  \<open>handler\<close> (lines 60 to 132): what the handler does with the response, and the state at
  the end. \<open>Inr\<close> is the response it sends; a response whose status is not set has status
  200. \<open>Inl\<close> is an error thrown outside the \<open>try\<close>: the promise of the handler is rejected
  and the handler sends nothing. That is the \<open>TypeError\<close> of line 74 for a \<open>POST\<close> whose
  body is \<open>undefined\<close> or \<open>null\<close>, thrown before any remote call. \<open>!itemVariationId\<close> holds
  of \<open>null\<close> and of the empty string.
\<close>

definition handler :: "config \<Rightarrow> platform \<Rightarrow> request \<Rightarrow> (js_error + response) \<times> state" where
  "handler cfg P req =
     (if method req = ''OPTIONS'' then (Inr \<lparr>status = 200, headers = cors, sent = NoBody\<rparr>, start)
      else if method req \<noteq> ''POST'' then
        (Inr \<lparr>status = 405, headers = cors, sent = MethodError ''Method not allowed''\<rparr>, start)
      else
        case body req of
          BodyUndefined \<Rightarrow> (Inl (cannot_destructure ''undefined''), start)
        | BodyNull \<Rightarrow> (Inl (cannot_destructure ''null''), start)
        | Body b \<Rightarrow>
            let (itemVariationId, s) = getItemVariationId cfg P start
            in case itemVariationId of
                 None \<Rightarrow>
                   (Inr \<lparr>status = 500, headers = cors,
                         sent = Failure ''Item variation not configured''\<rparr>, s)
               | Some v \<Rightarrow>
                   if v = [] then
                     (Inr \<lparr>status = 500, headers = cors,
                           sent = Failure ''Item variation not configured''\<rparr>, s)
                   else
                     (case checkout cfg P b v s of
                        (Inl error, s') \<Rightarrow>
                          (Inr \<lparr>status = 500, headers = cors,
                                sent = Failure (error_text error)\<rparr>, s')
                      | (Inr json, s') \<Rightarrow>
                          (Inr \<lparr>status = 200, headers = cors, sent = json\<rparr>, s')))"


section \<open>Notions used in the claims and their proofs\<close>

text \<open>
  The key of a customer as the specification words it: the name in lower case, leading
  and trailing white space trimmed, every run of white space inside collapsed to one
  underscore.
\<close>

definition spec_key :: "string \<Rightarrow> string" where
  "spec_key n = replace_spaces (trim (toLowerCase n))"

text \<open>A string without its trailing white space (the right half of \<open>trim\<close>).\<close>

definition rstrip :: "string \<Rightarrow> string" where
  "rstrip s = rev (dropWhile is_space (rev s))"

text \<open>
  The Number a decimal literal denotes: \<open>decimal 12345 3\<close> is the value of \<open>12.345\<close> in a
  program or in the JSON text of a request.
\<close>

definition decimal :: "int \<Rightarrow> nat \<Rightarrow> js_number" where
  "decimal n k = fl (of_int n / 10 ^ k)"

text \<open>
  A usable items array: an array every element of which is an object whose price, times
  one hundred, is a finite Number. \<open>first_unusable\<close> is the first element of an array
  that is not.
\<close>

definition priced :: "item \<Rightarrow> bool" where
  "priced it = (case multiply (ToNumber (price it)) (Fin 100) of Fin x \<Rightarrow> True | _ \<Rightarrow> False)"

fun usable_element :: "element \<Rightarrow> bool" where
  "usable_element ElementNull = False"
| "usable_element (Element it) = priced it"

fun usable :: "items_value \<Rightarrow> bool" where
  "usable (ItemsArray elements) = list_all usable_element elements"
| "usable v = False"

definition first_unusable :: "element list \<Rightarrow> element option" where
  "first_unusable elements = find (\<lambda>el. \<not> usable_element el) elements"

section \<open>Sample platforms and requests\<close>

text \<open>
  A platform on which everything succeeds, with one catalog variation and no customer
  on record, and the request of the end-to-end scenario.
\<close>

definition example_config :: config where
  "example_config = \<lparr>LOCATION_ID = ''LOC'', CATALOG_ITEM_ID = ''ITEM''\<rparr>"

definition example_platform :: platform where
  "example_platform =
     \<lparr>searchCustomers = (\<lambda>k. Inr \<lparr>customers = None\<rparr>),
      createCustomer = (\<lambda>r. Inr \<lparr>created_customer = Some \<lparr>customer_id = ''CUST1''\<rparr>\<rparr>),
      retrieveCatalogObject = (\<lambda>i b.
        Inr \<lparr>object = Some \<lparr>itemData = Some \<lparr>variations = Some [\<lparr>variation_id = ''VAR1''\<rparr>]\<rparr>\<rparr>\<rparr>),
      createOrder = (\<lambda>r. Inr \<lparr>created_order = Some \<lparr>order_id = ''ORD1''\<rparr>\<rparr>),
      createPayment = (\<lambda>r.
        Inr \<lparr>created_payment = Some \<lparr>payment_id = ''PAY1'', payment_status = ''COMPLETED''\<rparr>\<rparr>),
      uuid = (\<lambda>n. if n = 0 then ''uuid-0'' else if n = 1 then ''uuid-1'' else ''uuid-2'')\<rparr>"

definition example_body :: checkout_request where
  "example_body =
     \<lparr>sourceId = Some ''tok1'', amount = Some (Fin 10), customerName = Some ''Ann Lee'',
      pickupDate = Some ''2024-06-01'',
      items = ItemsArray [Element \<lparr>name = Some ''Latte'', quantity = Some (Fin 2),
                                    price = Some (Fin 5), comment = None\<rparr>]\<rparr>"

definition example_request :: request where
  "example_request = \<lparr>method = ''POST'', body = Body example_body\<rparr>"

text \<open>The same platform with one operation rejecting every request.\<close>

definition rejection :: js_error where
  "rejection = \<lparr>errors = Some [\<lparr>detail = Some ''Service unavailable''\<rparr>], message = ''503''\<rparr>"

definition declined :: js_error where
  "declined = \<lparr>errors = Some [\<lparr>detail = Some ''Card declined''\<rparr>], message = ''402''\<rparr>"

definition catalog_down :: platform where
  "catalog_down = example_platform\<lparr>retrieveCatalogObject := \<lambda>i b. Inl rejection\<rparr>"

definition search_down :: platform where
  "search_down = example_platform\<lparr>searchCustomers := \<lambda>k. Inl rejection\<rparr>"

definition orders_down :: platform where
  "orders_down = example_platform\<lparr>createOrder := \<lambda>r. Inl rejection\<rparr>"

definition payments_down :: platform where
  "payments_down = example_platform\<lparr>createPayment := \<lambda>r. Inl declined\<rparr>"

text \<open>The same platform with another reply to the catalog call.\<close>

definition catalog_replies :: "catalog_result \<Rightarrow> platform" where
  "catalog_replies r = example_platform\<lparr>retrieveCatalogObject := \<lambda>i b. Inr r\<rparr>"

definition two_variations :: catalog_result where
  "two_variations =
     \<lparr>object = Some \<lparr>itemData = Some
        \<lparr>variations = Some [\<lparr>variation_id = ''VARA''\<rparr>, \<lparr>variation_id = ''VARB''\<rparr>]\<rparr>\<rparr>\<rparr>"

definition empty_variations :: catalog_result where
  "empty_variations = \<lparr>object = Some \<lparr>itemData = Some \<lparr>variations = Some []\<rparr>\<rparr>\<rparr>"

definition absent_variations :: catalog_result where
  "absent_variations = \<lparr>object = Some \<lparr>itemData = Some \<lparr>variations = None\<rparr>\<rparr>\<rparr>"

definition absent_data :: catalog_result where
  "absent_data = \<lparr>object = Some \<lparr>itemData = None\<rparr>\<rparr>"

definition absent_object :: catalog_result where
  "absent_object = \<lparr>object = None\<rparr>"

text \<open>The order and the payment of the sample run.\<close>

definition example_order :: order_request where
  "example_order =
     \<lparr>ord_locationId = ''LOC'', ord_customerId = Some ''CUST1'',
      ord_lineItems =
        [\<lparr>li_quantity = ''2'', li_catalogObjectId = ''VAR1'',
          li_basePriceMoney = \<lparr>money_amount = 500, money_currency = ''USD''\<rparr>,
          li_note = ''Latte''\<rparr>],
      ord_state = ''OPEN'', ord_idempotencyKey = ''uuid-1''\<rparr>"

definition example_payment :: payment_request where
  "example_payment =
     \<lparr>pay_sourceId = Some ''tok1'', pay_idempotencyKey = ''uuid-2'',
      pay_amountMoney = \<lparr>money_amount = 1000, money_currency = ''USD''\<rparr>,
      pay_locationId = ''LOC'', pay_orderId = ''ORD1'',
      pay_customerId = Some ''CUST1'',
      pay_note = ''Pickup: 2024-06-01''\<rparr>"

text \<open>Requests whose prices lie at or near half a cent.\<close>

definition rounding_body :: checkout_request where
  "rounding_body =
     \<lparr>sourceId = Some ''tok1'', amount = Some (decimal 9999 3), customerName = Some ''Ann Lee'',
      pickupDate = Some ''2024-06-01'',
      items = ItemsArray [Element \<lparr>name = Some ''Latte'', quantity = Some (Fin 2),
                                    price = Some (decimal 12345 3), comment = None\<rparr>]\<rparr>"

definition boundary_body :: checkout_request where
  "boundary_body =
     \<lparr>sourceId = Some ''tok1'', amount = Some (decimal 1005 3), customerName = Some ''Ann Lee'',
      pickupDate = Some ''2024-06-01'',
      items = ItemsArray [Element \<lparr>name = Some ''Latte'', quantity = Some (Fin 2),
                                    price = Some (decimal 1005 3), comment = None\<rparr>,
                          Element \<lparr>name = Some ''Mint'', quantity = Some (Fin 2),
                                    price = Some (decimal 15 3), comment = None\<rparr>]\<rparr>"

definition rounding_request :: request where
  "rounding_request = \<lparr>method = ''POST'', body = Body rounding_body\<rparr>"

definition boundary_request :: request where
  "boundary_request = \<lparr>method = ''POST'', body = Body boundary_body\<rparr>"

definition rounding_order :: order_request where
  "rounding_order =
     \<lparr>ord_locationId = ''LOC'', ord_customerId = Some ''CUST1'',
      ord_lineItems =
        [\<lparr>li_quantity = ''2'', li_catalogObjectId = ''VAR1'',
          li_basePriceMoney = \<lparr>money_amount = 1235, money_currency = ''USD''\<rparr>,
          li_note = ''Latte''\<rparr>],
      ord_state = ''OPEN'', ord_idempotencyKey = ''uuid-1''\<rparr>"

definition rounding_payment :: payment_request where
  "rounding_payment =
     \<lparr>pay_sourceId = Some ''tok1'', pay_idempotencyKey = ''uuid-2'',
      pay_amountMoney = \<lparr>money_amount = 1000, money_currency = ''USD''\<rparr>,
      pay_locationId = ''LOC'', pay_orderId = ''ORD1'',
      pay_customerId = Some ''CUST1'',
      pay_note = ''Pickup: 2024-06-01''\<rparr>"

text \<open>The amounts of money a call carries, in minor units.\<close>

definition amounts :: "call \<Rightarrow> int list" where
  "amounts c =
     (case c of
        CreateOrder r \<Rightarrow> map (\<lambda>li. money_amount (li_basePriceMoney li)) (ord_lineItems r)
      | CreatePayment p \<Rightarrow> [money_amount (pay_amountMoney p)]
      | _ \<Rightarrow> [])"

text \<open>
  Requests that are not checkout requests: the sample request with other items, a body
  with no property at all, and no body.
\<close>

definition with_items :: "items_value \<Rightarrow> request" where
  "with_items v = \<lparr>method = ''POST'', body = Body (example_body\<lparr>items := v\<rparr>)\<rparr>"

definition unpriced :: item where
  "unpriced = \<lparr>name = Some ''Latte'', quantity = Some (Fin 2), price = None, comment = None\<rparr>"

definition empty_body :: checkout_request where
  "empty_body =
     \<lparr>sourceId = None, amount = None, customerName = None, pickupDate = None,
      items = ItemsUndefined\<rparr>"

definition nameless_request :: request where
  "nameless_request = \<lparr>method = ''POST'', body = Body empty_body\<rparr>"

definition bodyless_request :: request where
  "bodyless_request = \<lparr>method = ''POST'', body = BodyUndefined\<rparr>"


section \<open>Facts about numbers\<close>

text \<open>\<open>ilog2\<close> is the binary logarithm rounded down.\<close>

lemma powi_mono: "k \<le> l \<Longrightarrow> (2::rat) powi k \<le> 2 powi l"
  by (rule power_int_increasing) simp_all

lemma powi_pos: "0 < (2::rat) powi k"
  by (simp add: zero_less_power_int)

lemma ilog2_bounds:
  assumes "0 < x"
  shows "2 powi (ilog2 x) \<le> x \<and> x < 2 powi (ilog2 x + 1)"
proof -
  obtain a b where q: "quotient_of x = (a, b)" by force
  have b: "0 < b" using quotient_of_denom_pos [OF q] .
  have x: "x = of_int a / of_int b" using quotient_of_div [OF q] .
  have a: "0 < a" using assms b unfolding x by (simp add: zero_less_divide_iff)
  define la where "la = bitlen a"
  define lb where "lb = bitlen b"
  have la: "0 < la" "2 ^ nat (la - 1) \<le> a" "a < 2 ^ nat la"
    using bitlen_bounds [OF a] a by (auto simp: la_def bitlen_alt_def)
  have lb: "0 < lb" "2 ^ nat (lb - 1) \<le> b" "b < 2 ^ nat lb"
    using bitlen_bounds [OF b] b by (auto simp: lb_def bitlen_alt_def)
  have ra: "(2::rat) powi (la - 1) \<le> of_int a" "of_int a < (2::rat) powi la"
  proof -
    have "(of_int (2 ^ nat (la - 1)) :: rat) \<le> of_int a" using la(2) by (simp only: of_int_le_iff)
    then show "(2::rat) powi (la - 1) \<le> of_int a" using la(1) by (simp add: power_int_def)
    have "(of_int a :: rat) < of_int (2 ^ nat la)" using la(3) by (simp only: of_int_less_iff)
    then show "of_int a < (2::rat) powi la" using la(1) by (simp add: power_int_def)
  qed
  have rb: "(2::rat) powi (lb - 1) \<le> of_int b" "of_int b < (2::rat) powi lb"
  proof -
    have "(of_int (2 ^ nat (lb - 1)) :: rat) \<le> of_int b" using lb(2) by (simp only: of_int_le_iff)
    then show "(2::rat) powi (lb - 1) \<le> of_int b" using lb(1) by (simp add: power_int_def)
    have "(of_int b :: rat) < of_int (2 ^ nat lb)" using lb(3) by (simp only: of_int_less_iff)
    then show "of_int b < (2::rat) powi lb" using lb(1) by (simp add: power_int_def)
  qed
  have bpos: "(0::rat) < of_int b" using b by simp
  have up: "x < 2 powi (la - lb + 1)"
  proof -
    have "of_int a * (2::rat) powi (lb - 1) < 2 powi la * of_int b"
      using ra(2) rb(1) bpos powi_pos [of "lb - 1"] powi_pos [of la]
      by (meson less_le_trans mult_le_cancel_left_pos mult_less_cancel_right_pos)
    then have "x * 2 powi (lb - 1) < 2 powi la"
      using bpos unfolding x by (simp add: field_simps)
    moreover have "(2::rat) powi la = 2 powi (la - lb + 1) * 2 powi (lb - 1)"
      by (simp flip: power_int_add)
    ultimately show ?thesis using powi_pos [of "lb - 1"] by simp
  qed
  have low: "2 powi (la - lb - 1) \<le> x"
  proof -
    have "(2::rat) powi (la - 1) * of_int b \<le> of_int a * 2 powi lb"
      using ra(1) rb(2) bpos powi_pos [of "la - 1"] powi_pos [of lb]
      by (smt (verit, best) mult_mono of_int_0_le_iff a less_imp_le mult.commute)
    then have "(2::rat) powi (la - 1) \<le> x * 2 powi lb"
      using bpos unfolding x by (simp add: field_simps)
    moreover have "(2::rat) powi (la - 1) = 2 powi (la - lb - 1) * 2 powi lb"
      by (simp flip: power_int_add)
    ultimately show ?thesis using powi_pos [of lb] by simp
  qed
  have "ilog2 x = (if 2 powi (la - lb) \<le> x then la - lb else la - lb - 1)"
    by (simp add: ilog2_def q la_def lb_def Let_def)
  then show ?thesis using up low by (auto simp: not_le)
qed

lemma ilog2_unique:
  assumes "0 < x" and "2 powi k \<le> x" and "x < 2 powi (k + 1)"
  shows "ilog2 x = k"
proof -
  let ?l = "ilog2 x"
  have b: "2 powi ?l \<le> x" "x < 2 powi (?l + 1)" using ilog2_bounds [OF assms(1)] by simp_all
  have "\<not> ?l + 1 \<le> k"
  proof
    assume "?l + 1 \<le> k"
    then have "(2::rat) powi (?l + 1) \<le> 2 powi k" by (rule powi_mono)
    then show False using b(2) assms(2) by simp
  qed
  moreover have "\<not> k + 1 \<le> ?l"
  proof
    assume "k + 1 \<le> ?l"
    then have "(2::rat) powi (k + 1) \<le> 2 powi ?l" by (rule powi_mono)
    then show False using b(1) assms(3) by simp
  qed
  ultimately show ?thesis by simp
qed

lemma round_half_even_near:
  assumes "\<bar>x - of_int m\<bar> < 1 / 2"
  shows "round_half_even x = m"
proof -
  have "\<lfloor>x\<rfloor> = m \<or> \<lfloor>x\<rfloor> = m - 1" using assms by linarith
  then show ?thesis
  proof
    assume f: "\<lfloor>x\<rfloor> = m"
    then have "x - of_int m < 1 / 2" using assms by linarith
    then show ?thesis by (simp add: round_half_even_def f Let_def)
  next
    assume f: "\<lfloor>x\<rfloor> = m - 1"
    have "1 / 2 < x - (of_int m - 1)" using assms by linarith
    then show ?thesis by (simp add: round_half_even_def f Let_def)
  qed
qed

lemma fl_Fin:
  assumes "x \<noteq> 0" and "2 powi k \<le> \<bar>x\<bar>" and "\<bar>x\<bar> < 2 powi (k + 1)"
    and "e = max (k - 52) (- 1074)"
    and "round_half_even (x / 2 powi e) = m"
    and "of_int m * 2 powi e = y"
    and "\<bar>y\<bar> < 2 ^ 1024"
  shows "fl x = Fin y"
proof -
  have "ilog2 \<bar>x\<bar> = k" using assms(1-3) by (intro ilog2_unique) simp_all
  then show ?thesis using assms(1,4-7) by (auto simp: fl_def Let_def)
qed

text \<open>
  A finite result of \<open>fl\<close> is a binary64 value, at most half a unit in the last place
  away from the number rounded.
\<close>

lemma round_half_even_error: "\<bar>of_int (round_half_even z) - z\<bar> \<le> 1 / 2"
proof -
  have "0 \<le> z - of_int \<lfloor>z\<rfloor>" "z - of_int \<lfloor>z\<rfloor> < 1"
    by linarith+
  then show ?thesis
    by (auto simp: round_half_even_def Let_def abs_le_iff)
qed

lemma fl_accuracy:
  assumes "fl x = Fin y"
  shows "\<exists>m e. - 1074 \<le> e \<and> \<bar>m\<bar> \<le> 2 ^ 53 \<and> y = of_int m * 2 powi e \<and> \<bar>y\<bar> < 2 ^ 1024
           \<and> \<bar>y - x\<bar> \<le> 2 powi e / 2"
proof (cases "x = 0")
  case True
  with assms have "y = 0" by (simp add: fl_def)
  with True show ?thesis
    by (intro exI [where x = 0] exI [where x = "- 1074"]) simp
next
  case False
  define k where "k = ilog2 \<bar>x\<bar>"
  define e where "e = max (k - 52) (- 1074)"
  define p where "p = (2::rat) powi e"
  define m where "m = round_half_even (x / p)"
  have p: "0 < p" by (simp add: p_def powi_pos)
  from assms False have y: "y = of_int m * p" and small: "\<bar>y\<bar> < 2 ^ 1024"
    by (auto simp: fl_def Let_def k_def e_def p_def m_def split: if_splits)
  have 1: "\<bar>x\<bar> < 2 powi (k + 1)"
    using ilog2_bounds [of "\<bar>x\<bar>"] False by (simp add: k_def)
  have "(2::rat) powi (k - 52 + 53) = 2 powi (k - 52) * 2 powi 53"
    by (rule power_int_add) simp
  moreover have "k - 52 + 53 = k + 1"
    by simp
  ultimately have 2: "(2::rat) powi (k + 1) = 2 powi (k - 52) * 2 ^ 53"
    by (simp only: power_int_numeral)
  have "(2::rat) powi (k - 52) \<le> p"
    unfolding p_def by (rule powi_mono) (simp add: e_def)
  then have 3: "(2::rat) powi (k - 52) * 2 ^ 53 \<le> p * 2 ^ 53"
    by (rule mult_right_mono) simp
  from 1 2 3 have "\<bar>x\<bar> < p * 2 ^ 53"
    by (simp only:)
  then have z: "\<bar>x / p\<bar> < 2 ^ 53"
    using p by (simp add: abs_divide divide_less_eq mult.commute abs_of_pos)
  have err: "\<bar>of_int m - x / p\<bar> \<le> 1 / 2"
    unfolding m_def by (rule round_half_even_error)
  have "\<bar>(of_int m :: rat)\<bar> < 2 ^ 53 + 1"
    using z err by linarith
  then have "(of_int \<bar>m\<bar> :: rat) < of_int (2 ^ 53 + 1)"
    by simp
  then have "\<bar>m\<bar> < 2 ^ 53 + 1"
    by (simp only: of_int_less_iff)
  then have m: "\<bar>m\<bar> \<le> 2 ^ 53"
    by simp
  have "y - x = (of_int m - x / p) * p"
    using p by (simp add: y field_simps)
  then have "\<bar>y - x\<bar> = \<bar>of_int m - x / p\<bar> * p"
    using p by (simp add: abs_mult abs_of_pos)
  also have "\<dots> \<le> 1 / 2 * p"
    using err p by (intro mult_right_mono) simp_all
  finally have close: "\<bar>y - x\<bar> \<le> p / 2" by simp
  have "- 1074 \<le> e" by (simp add: e_def)
  with m y small close show ?thesis
    unfolding p_def by blast
qed

text \<open>Evaluating at numerals.\<close>

lemma floor_rat_numeral:
  "\<lfloor>numeral a / numeral b :: rat\<rfloor> = numeral a div numeral b"
  using floor_divide_of_int_eq [of "numeral a" "numeral b", where ?'a = rat] by simp

lemma fl_500: "fl 500 = Fin 500"
  by (rule fl_Fin [where k = 8 and e = "- 44" and m = "500 * 2 ^ 44"])
     (simp_all add: power_int_minus round_half_even_near)

lemma fl_1000: "fl 1000 = Fin 1000"
  by (rule fl_Fin [where k = 9 and e = "- 43" and m = "1000 * 2 ^ 43"])
     (simp_all add: power_int_minus round_half_even_near)


lemma decimal_12_345: "decimal 12345 3 = Fin (6949617174986097 / 2 ^ 49)"
  unfolding decimal_def
  by (rule fl_Fin [where k = 3 and e = "- 49" and m = 6949617174986097])
     (simp_all add: power_int_minus round_half_even_near)

lemma decimal_9_999: "decimal 9999 3 = Fin (5628936584259699 / 2 ^ 49)"
  unfolding decimal_def
  by (rule fl_Fin [where k = 3 and e = "- 49" and m = 5628936584259699])
     (simp_all add: power_int_minus round_half_even_near)

lemma decimal_1_005: "decimal 1005 3 = Fin (4526117625507348 / 2 ^ 52)"
  unfolding decimal_def
  by (rule fl_Fin [where k = 0 and e = "- 52" and m = 4526117625507348])
     (simp_all add: power_int_minus round_half_even_near)

lemma decimal_0_015: "decimal 15 3 = Fin (8646911284551352 / 2 ^ 59)"
  unfolding decimal_def
  by (rule fl_Fin [where k = "- 7" and e = "- 59" and m = 8646911284551352])
     (simp_all add: power_int_minus round_half_even_near)

lemma times_100_12_345: "fl (6949617174986097 / 2 ^ 49 * 100) = Fin (2469 / 2)"
  by (rule fl_Fin [where k = 10 and e = "- 42" and m = 5429388417957888])
     (simp_all add: power_int_minus round_half_even_near)

lemma times_100_9_999: "fl (5628936584259699 / 2 ^ 49 * 100) = Fin (8795213412905780 / 2 ^ 43)"
  by (rule fl_Fin [where k = 9 and e = "- 43" and m = 8795213412905780])
     (simp_all add: power_int_minus round_half_even_near)

lemma times_100_1_005: "fl (4526117625507348 / 2 ^ 52 * 100) = Fin (7072058789855231 / 2 ^ 46)"
  by (rule fl_Fin [where k = 6 and e = "- 46" and m = 7072058789855231])
     (simp_all add: power_int_minus round_half_even_near)

lemma times_100_0_015: "fl (8646911284551352 / 2 ^ 59 * 100) = Fin (3 / 2)"
  by (rule fl_Fin [where k = 0 and e = "- 52" and m = 6755399441055744])
     (simp_all add: power_int_minus round_half_even_near)

lemma cents_12_345: "BigInt (Math_round (multiply (decimal 12345 3) (Fin 100))) = Inr 1235"
  by (simp only: decimal_12_345 multiply.simps times_100_12_345 Math_round.simps)
     (simp add: floor_rat_numeral)

lemma cents_9_999: "BigInt (Math_round (multiply (decimal 9999 3) (Fin 100))) = Inr 1000"
  by (simp only: decimal_9_999 multiply.simps times_100_9_999 Math_round.simps)
     (simp add: floor_rat_numeral)

lemma cents_1_005: "BigInt (Math_round (multiply (decimal 1005 3) (Fin 100))) = Inr 100"
  by (simp only: decimal_1_005 multiply.simps times_100_1_005 Math_round.simps)
     (simp add: floor_rat_numeral)

lemma cents_0_015: "BigInt (Math_round (multiply (decimal 15 3) (Fin 100))) = Inr 2"
  by (simp only: decimal_0_015 multiply.simps times_100_0_015 Math_round.simps)
     (simp add: floor_rat_numeral)


section \<open>Facts about strings\<close>

lemma is_space_lower_char [simp]: "is_space (lower_char c) = is_space c"
proof -
  define n where "n = (of_char c :: nat)"
  show ?thesis
  proof (cases "(65 \<le> n \<and> n \<le> 90) \<or> (192 \<le> n \<and> n \<le> 222 \<and> n \<noteq> 215)")
    case False
    then have "lower_char c = c"
      unfolding lower_char_def Let_def n_def by (rule if_not_P)
    then show ?thesis by (simp only:)
  next
    case True
    then have l: "lower_char c = char_of (n + 32)"
      unfolding lower_char_def Let_def n_def by (rule if_P)
    from True have "n + 32 < 256" by auto
    then have "(of_char (char_of (n + 32)) :: nat) = n + 32"
      by simp
    moreover from True have "n + 32 \<notin> {9, 10, 11, 12, 13, 32, 160}" and "n \<notin> {9, 10, 11, 12, 13, 32, 160}"
      by auto
    ultimately show ?thesis
      by (simp only: l is_space_def n_def [symmetric])
  qed
qed

lemma dropWhile_toLowerCase:
  "dropWhile is_space (toLowerCase s) = toLowerCase (dropWhile is_space s)"
  by (induction s) (simp_all add: toLowerCase_def)

lemma trim_toLowerCase: "trim (toLowerCase s) = toLowerCase (trim s)"
proof -
  have "dropWhile is_space (rev (toLowerCase t)) = toLowerCase (dropWhile is_space (rev t))" for t
    using dropWhile_toLowerCase [of "rev t"] by (simp add: toLowerCase_def rev_map)
  then show ?thesis
    by (simp add: trim_def dropWhile_toLowerCase) (simp add: toLowerCase_def rev_map)
qed

lemma rstrip_Nil [simp]: "rstrip [] = []"
  by (simp add: rstrip_def)

lemma rstrip_empty_iff: "rstrip s = [] \<longleftrightarrow> (\<forall>c \<in> set s. is_space c)"
  by (simp add: rstrip_def dropWhile_eq_Nil_conv)

lemma rstrip_Cons:
  "rstrip (c # cs) = (if is_space c \<and> rstrip cs = [] then [] else c # rstrip cs)"
proof (cases "\<forall>x \<in> set cs. is_space x")
  case True
  then have "dropWhile is_space (rev cs @ [c]) = dropWhile is_space [c]"
    by (intro dropWhile_append2) simp
  with True show ?thesis
    by (simp add: rstrip_def dropWhile_eq_Nil_conv)
next
  case False
  then obtain x where "x \<in> set (rev cs)" "\<not> is_space x" by auto
  then have "dropWhile is_space (rev cs @ [c]) = dropWhile is_space (rev cs) @ [c]"
    by (rule dropWhile_append1)
  with False show ?thesis
    by (simp add: rstrip_def dropWhile_eq_Nil_conv)
qed

lemma last_dropWhile:
  "dropWhile P xs \<noteq> [] \<Longrightarrow> last (dropWhile P xs) = last xs"
  using last_appendR [of "dropWhile P xs" "takeWhile P xs"] by simp

lemma replace_spaces_leading:
  "replace_spaces s =
     (if s \<noteq> [] \<and> is_space (hd s) then ''_'' else []) @ replace_spaces (dropWhile is_space s)"
  by (cases s) simp_all

lemma rstrip_dropWhile:
  "rstrip (dropWhile is_space s) = dropWhile is_space (rstrip s)"
proof (induction s)
  case Nil
  show ?case by simp
next
  case (Cons c cs)
  show ?case
  proof (cases "is_space c")
    case True
    with Cons show ?thesis
      by (simp add: rstrip_Cons)
  next
    case False
    then show ?thesis by (simp add: rstrip_Cons)
  qed
qed

lemma replace_spaces_trailing:
  "replace_spaces s =
     replace_spaces (rstrip s) @ (if s \<noteq> [] \<and> is_space (last s) then ''_'' else [])"
proof (induction s rule: replace_spaces.induct)
  case 1
  show ?case by simp
next
  case (2 c cs)
  show ?case
  proof (cases "is_space c")
    case False
    with 2 show ?thesis by (simp add: rstrip_Cons)
  next
    case sp: True
    let ?t = "dropWhile is_space cs"
    have ih: "replace_spaces ?t =
        replace_spaces (rstrip ?t) @ (if ?t \<noteq> [] \<and> is_space (last ?t) then ''_'' else [])"
      using 2(1) [OF sp] .
    show ?thesis
    proof (cases "?t = []")
      case True
      then have all: "\<forall>x \<in> set cs. is_space x" by (simp add: dropWhile_eq_Nil_conv)
      then have "rstrip (c # cs) = []" using sp by (simp add: rstrip_Cons rstrip_empty_iff)
      moreover have "is_space (last (c # cs))" using sp all by (cases cs rule: rev_cases) auto
      moreover have "replace_spaces (dropWhile is_space cs) = []" by (simp only: True replace_spaces.simps)
      ultimately show ?thesis using sp by simp
    next
      case False
      then have some: "\<not> (\<forall>x \<in> set cs. is_space x)" by (simp add: dropWhile_eq_Nil_conv)
      then have r: "rstrip (c # cs) = c # rstrip cs" by (simp add: rstrip_Cons rstrip_empty_iff)
      have "last ?t = last cs"
        using False by (rule last_dropWhile)
      moreover have "cs \<noteq> []" using False by auto
      ultimately have l: "last (c # cs) = last ?t" by simp
      have "replace_spaces (rstrip (c # cs)) = CHR ''_'' # replace_spaces (dropWhile is_space (rstrip cs))"
        using sp by (simp add: r)
      then show ?thesis
        using sp ih False l by (simp add: rstrip_dropWhile)
    qed
  qed
qed

lemma replace_spaces_no_space: "c \<in> set (replace_spaces s) \<Longrightarrow> \<not> is_space c"
proof (induction s rule: replace_spaces.induct)
  case 1
  then show ?case by simp
next
  case (2 d ds)
  have underscore: "\<not> is_space CHR ''_''"
    by (simp add: is_space_def)
  show ?case
  proof (cases "is_space d")
    case True
    with 2(3) have "c = CHR ''_'' \<or> c \<in> set (replace_spaces (dropWhile is_space ds))"
      by simp
    with 2(1) [OF True] underscore show ?thesis by blast
  next
    case False
    with 2(3) have "c = d \<or> c \<in> set (replace_spaces ds)"
      by simp
    with 2(2) [OF False] False show ?thesis by blast
  qed
qed

lemma replace_spaces_trim:
  "replace_spaces s =
     (if s \<noteq> [] \<and> is_space (hd s) then ''_'' else [])
     @ replace_spaces (trim s)
     @ (if trim s \<noteq> [] \<and> is_space (last s) then ''_'' else [])"
proof -
  let ?t = "dropWhile is_space s"
  have t: "trim s = rstrip ?t" by (simp add: trim_def rstrip_def)
  have tail: "replace_spaces ?t =
      replace_spaces (trim s) @ (if trim s \<noteq> [] \<and> is_space (last s) then ''_'' else [])"
  proof (cases "?t = []")
    case True
    then have "trim s = []" unfolding t by (simp only: rstrip_Nil)
    then show ?thesis by (simp only: True) simp
  next
    case ne: False
    then have "\<not> is_space (hd ?t)" by (rule hd_dropWhile)
    then have "rstrip ?t \<noteq> []"
      using rstrip_empty_iff [of ?t] hd_in_set [OF ne] by blast
    then have 1: "trim s \<noteq> []" unfolding t .
    have 2: "last ?t = last s" using ne by (rule last_dropWhile)
    have "replace_spaces ?t =
        replace_spaces (rstrip ?t) @ (if ?t \<noteq> [] \<and> is_space (last ?t) then ''_'' else [])"
      by (rule replace_spaces_trailing)
    then show ?thesis
      unfolding t [symmetric] 2 using ne 1 by (simp only: if_True if_False simp_thms)
  qed
  show ?thesis
    by (subst replace_spaces_leading) (simp only: tail)
qed


lemma key_Jane: "replace_spaces (toLowerCase ''Jane Q. Public'') = ''jane_q._public''" by code_simp
lemma key_Bob: "replace_spaces (toLowerCase ''  Bob   Lee '') = ''_bob_lee_''" by code_simp
lemma spec_key_Bob: "spec_key ''  Bob   Lee '' = ''bob_lee''" by code_simp
lemma parts_Bob: "split_space (trim ''  Bob   Lee '') = [''Bob'', [], [], ''Lee'']" by code_simp
lemma join_Bob: "join_space [[], [], ''Lee''] = ''  Lee''" by code_simp

lemma lower_key_shape:
  "replace_spaces (toLowerCase n) =
     (if n \<noteq> [] \<and> is_space (hd n) then ''_'' else [])
     @ spec_key n
     @ (if trim n \<noteq> [] \<and> is_space (last n) then ''_'' else [])"
proof -
  have 1: "toLowerCase n \<noteq> [] \<longleftrightarrow> n \<noteq> []"
    by (simp add: toLowerCase_def)
  have 2: "n \<noteq> [] \<Longrightarrow> is_space (hd (toLowerCase n)) = is_space (hd n)"
    by (simp add: toLowerCase_def hd_map)
  have 3: "n \<noteq> [] \<Longrightarrow> is_space (last (toLowerCase n)) = is_space (last n)"
    by (simp add: toLowerCase_def last_map)
  have 4: "trim (toLowerCase n) \<noteq> [] \<longleftrightarrow> trim n \<noteq> []"
    by (simp add: trim_toLowerCase) (simp add: toLowerCase_def)
  have 5: "trim n \<noteq> [] \<Longrightarrow> n \<noteq> []"
    by (auto simp: trim_def)
  show ?thesis
    using replace_spaces_trim [of "toLowerCase n"] 1 2 3 4 5
    by (auto simp: spec_key_def)
qed

lemma BigInt_Math_round:
  assumes "BigInt (Math_round z) = Inr a"
  obtains x where "z = Fin x" "a = \<lfloor>x + 1 / 2\<rfloor>"
  using assms by (cases z) (auto split: if_splits)

section \<open>The paths through the handler\<close>

lemma getItemVariationId_state:
  "snd (getItemVariationId cfg P s) =
     s\<lparr>calls := calls s @ [RetrieveCatalogObject (CATALOG_ITEM_ID cfg) True]\<rparr>"
  by (simp add: getItemVariationId_def remote_def Let_def split: sum.splits option.splits list.splits)

lemma getItemVariationId_result:
  "fst (getItemVariationId cfg P s) =
     (case retrieveCatalogObject P (CATALOG_ITEM_ID cfg) True of
        Inl e \<Rightarrow> None
      | Inr r \<Rightarrow>
          (case object r of
             None \<Rightarrow> None
           | Some it \<Rightarrow>
               (case itemData it of
                  None \<Rightarrow> None
                | Some d \<Rightarrow>
                    (case variations d of
                       None \<Rightarrow> None
                     | Some [] \<Rightarrow> None
                     | Some (v # vs) \<Rightarrow> Some (variation_id v)))))"
  by (simp add: getItemVariationId_def Let_def split: sum.splits option.splits list.splits)

lemma getOrCreateCustomer_cases [consumes 1, case_names no_name search_rejected found create_rejected no_customer created]:
  assumes "getOrCreateCustomer P n s = (cid, s')"
  obtains
    (no_name) "n = None" "cid = None" "s' = s"
  | (search_rejected) nm e where "n = Some nm" "cid = None"
      "searchCustomers P (replace_spaces (toLowerCase nm)) = Inl e"
      "calls s' = calls s @ [SearchCustomers (replace_spaces (toLowerCase nm))]"
      "drawn s' = drawn s"
  | (found) nm r c cs where "n = Some nm" "cid = Some (customer_id c)"
      "searchCustomers P (replace_spaces (toLowerCase nm)) = Inr r" "customers r = Some (c # cs)"
      "calls s' = calls s @ [SearchCustomers (replace_spaces (toLowerCase nm))]"
      "drawn s' = drawn s"
  | (create_rejected) nm r e where "n = Some nm" "cid = None"
      "searchCustomers P (replace_spaces (toLowerCase nm)) = Inr r"
      "customers r = None \<or> customers r = Some []"
      "createCustomer P (customer_request_of nm (uuid P (drawn s))) = Inl e"
      "calls s' = calls s @ [SearchCustomers (replace_spaces (toLowerCase nm)),
                            CreateCustomer (customer_request_of nm (uuid P (drawn s)))]"
      "drawn s' = Suc (drawn s)"
  | (no_customer) nm r cr where "n = Some nm" "cid = None"
      "searchCustomers P (replace_spaces (toLowerCase nm)) = Inr r"
      "customers r = None \<or> customers r = Some []"
      "createCustomer P (customer_request_of nm (uuid P (drawn s))) = Inr cr"
      "created_customer cr = None"
      "calls s' = calls s @ [SearchCustomers (replace_spaces (toLowerCase nm)),
                            CreateCustomer (customer_request_of nm (uuid P (drawn s)))]"
      "drawn s' = Suc (drawn s)"
  | (created) nm r cr c where "n = Some nm" "cid = Some (customer_id c)"
      "searchCustomers P (replace_spaces (toLowerCase nm)) = Inr r"
      "customers r = None \<or> customers r = Some []"
      "createCustomer P (customer_request_of nm (uuid P (drawn s))) = Inr cr"
      "created_customer cr = Some c"
      "calls s' = calls s @ [SearchCustomers (replace_spaces (toLowerCase nm)),
                            CreateCustomer (customer_request_of nm (uuid P (drawn s)))]"
      "drawn s' = Suc (drawn s)"
  using assms
  by (auto simp: getOrCreateCustomer_def remote_def randomUUID_def Let_def
        split: option.splits sum.splits list.splits)

lemma place_order_cases [consumes 1, case_names items_throw order_rejected amount_throws order_missing
    payment_rejected payment_missing paid]:
  assumes "place_order cfg P b v cid s = (r, s')"
  obtains
    (items_throw) e where "lineItems v (items b) = Inl e" "r = Inl e" "s' = s"
  | (order_rejected) lis e where "lineItems v (items b) = Inr lis"
      "createOrder P (order_request_of cfg cid lis (uuid P (drawn s))) = Inl e" "r = Inl e"
      "calls s' = calls s @ [CreateOrder (order_request_of cfg cid lis (uuid P (drawn s)))]"
  | (amount_throws) lis ores e where "lineItems v (items b) = Inr lis"
      "createOrder P (order_request_of cfg cid lis (uuid P (drawn s))) = Inr ores"
      "BigInt (Math_round (multiply (ToNumber (amount b)) (Fin 100))) = Inl e" "r = Inl e"
      "calls s' = calls s @ [CreateOrder (order_request_of cfg cid lis (uuid P (drawn s)))]"
  | (order_missing) lis ores cents e where "lineItems v (items b) = Inr lis"
      "createOrder P (order_request_of cfg cid lis (uuid P (drawn s))) = Inr ores"
      "BigInt (Math_round (multiply (ToNumber (amount b)) (Fin 100))) = Inr cents"
      "created_order ores = None" "r = Inl e"
      "calls s' = calls s @ [CreateOrder (order_request_of cfg cid lis (uuid P (drawn s)))]"
  | (payment_rejected) lis ores cents ord e where "lineItems v (items b) = Inr lis"
      "createOrder P (order_request_of cfg cid lis (uuid P (drawn s))) = Inr ores"
      "BigInt (Math_round (multiply (ToNumber (amount b)) (Fin 100))) = Inr cents"
      "created_order ores = Some ord"
      "createPayment P (payment_request_of cfg b cid ord (uuid P (Suc (drawn s))) cents) = Inl e"
      "r = Inl e"
      "calls s' = calls s @ [CreateOrder (order_request_of cfg cid lis (uuid P (drawn s))),
         CreatePayment (payment_request_of cfg b cid ord (uuid P (Suc (drawn s))) cents)]"
  | (payment_missing) lis ores cents ord pres e where "lineItems v (items b) = Inr lis"
      "createOrder P (order_request_of cfg cid lis (uuid P (drawn s))) = Inr ores"
      "BigInt (Math_round (multiply (ToNumber (amount b)) (Fin 100))) = Inr cents"
      "created_order ores = Some ord"
      "createPayment P (payment_request_of cfg b cid ord (uuid P (Suc (drawn s))) cents) = Inr pres"
      "created_payment pres = None" "r = Inl e"
      "calls s' = calls s @ [CreateOrder (order_request_of cfg cid lis (uuid P (drawn s))),
         CreatePayment (payment_request_of cfg b cid ord (uuid P (Suc (drawn s))) cents)]"
  | (paid) lis ores cents ord pres pm where "lineItems v (items b) = Inr lis"
      "createOrder P (order_request_of cfg cid lis (uuid P (drawn s))) = Inr ores"
      "BigInt (Math_round (multiply (ToNumber (amount b)) (Fin 100))) = Inr cents"
      "created_order ores = Some ord"
      "createPayment P (payment_request_of cfg b cid ord (uuid P (Suc (drawn s))) cents) = Inr pres"
      "created_payment pres = Some pm"
      "r = Inr (Success (payment_id pm) (order_id ord) (payment_status pm))"
      "calls s' = calls s @ [CreateOrder (order_request_of cfg cid lis (uuid P (drawn s))),
         CreatePayment (payment_request_of cfg b cid ord (uuid P (Suc (drawn s))) cents)]"
  using assms
  by (auto simp: place_order_def remote_def randomUUID_def Let_def
        split: option.splits sum.splits list.splits)

lemma handler_cases [consumes 1, case_names preflight not_allowed no_body unconfigured caught answered]:
  assumes "handler cfg P req = (res, st)"
  obtains
    (preflight) "method req = ''OPTIONS''"
      "res = Inr \<lparr>status = 200, headers = cors, sent = NoBody\<rparr>" "calls st = []"
  | (not_allowed) "method req \<noteq> ''OPTIONS''" "method req \<noteq> ''POST''"
      "res = Inr \<lparr>status = 405, headers = cors, sent = MethodError ''Method not allowed''\<rparr>"
      "calls st = []"
  | (no_body) e where "method req = ''POST''" "body req = BodyUndefined \<or> body req = BodyNull"
      "res = Inl e" "calls st = []"
  | (unconfigured) b where "method req = ''POST''" "body req = Body b"
      "fst (getItemVariationId cfg P start) = None \<or> fst (getItemVariationId cfg P start) = Some []"
      "res = Inr \<lparr>status = 500, headers = cors, sent = Failure ''Item variation not configured''\<rparr>"
      "calls st = [RetrieveCatalogObject (CATALOG_ITEM_ID cfg) True]"
  | (caught) b v cid s1 e where "method req = ''POST''" "body req = Body b"
      "fst (getItemVariationId cfg P start) = Some v" "v \<noteq> []"
      "getOrCreateCustomer P (customerName b) (snd (getItemVariationId cfg P start)) = (cid, s1)"
      "place_order cfg P b v cid s1 = (Inl e, st)"
      "res = Inr \<lparr>status = 500, headers = cors, sent = Failure (error_text e)\<rparr>"
  | (answered) b v cid s1 json where "method req = ''POST''" "body req = Body b"
      "fst (getItemVariationId cfg P start) = Some v" "v \<noteq> []"
      "getOrCreateCustomer P (customerName b) (snd (getItemVariationId cfg P start)) = (cid, s1)"
      "place_order cfg P b v cid s1 = (Inr json, st)"
      "res = Inr \<lparr>status = 200, headers = cors, sent = json\<rparr>"
proof (cases "method req = ''OPTIONS''")
  case True
  with assms preflight show ?thesis by (auto simp: handler_def start_def)
next
  case opt: False
  show ?thesis
  proof (cases "method req = ''POST''")
    case False
    with opt assms not_allowed show ?thesis by (auto simp: handler_def start_def)
  next
    case post: True
    show ?thesis
    proof (cases "body req")
      case BodyUndefined
      with assms post no_body show ?thesis by (auto simp: handler_def start_def)
    next
      case BodyNull
      with assms post no_body show ?thesis by (auto simp: handler_def start_def)
    next
      case (Body b)
      obtain iv s0 where g: "getItemVariationId cfg P start = (iv, s0)" by force
      have s0: "calls s0 = [RetrieveCatalogObject (CATALOG_ITEM_ID cfg) True]"
        using getItemVariationId_state [of cfg P start] g by (simp add: start_def)
      show ?thesis
      proof (cases "iv = None \<or> iv = Some []")
        case True
        with assms post Body g s0 unconfigured [of b] show ?thesis
          by (auto simp: handler_def)
      next
        case False
        then obtain v where v: "iv = Some v" "v \<noteq> []" by auto
        obtain cid s1 where c: "getOrCreateCustomer P (customerName b) s0 = (cid, s1)" by force
        obtain r s2 where p: "place_order cfg P b v cid s1 = (r, s2)" by force
        show ?thesis
        proof (cases r)
          case (Inl e)
          with assms post Body g v c p caught [of b v cid s1 e] show ?thesis
            by (auto simp: handler_def checkout_def)
        next
          case (Inr json)
          with assms post Body g v c p answered [of b v cid s1 json] show ?thesis
            by (auto simp: handler_def checkout_def)
        qed
      qed
    qed
  qed
qed

lemma map_throwing_Inr:
  "map_throwing f xs = Inr ys \<Longrightarrow> list_all2 (\<lambda>x y. f x = Inr y) xs ys"
  by (induction xs arbitrary: ys) (auto split: sum.splits)

lemma lineItem_Inr:
  assumes "lineItem v el = Inr li"
  obtains it where "el = Element it"
    and "li_catalogObjectId li = v"
    and "money_currency (li_basePriceMoney li) = ''USD''"
    and "BigInt (Math_round (multiply (ToNumber (price it)) (Fin 100)))
           = Inr (money_amount (li_basePriceMoney li))"
  using assms by (cases el) (auto simp: lineItem_def split: sum.splits)

lemma elements_are_objects:
  "list_all2 (\<lambda>el li. lineItem v el = Inr li) els lis
   \<Longrightarrow> \<exists>its. els = map Element its \<and> list_all2 (\<lambda>it li. lineItem v (Element it) = Inr li) its lis"
proof (induction els lis rule: list_all2_induct)
  case Nil
  show ?case by simp
next
  case (Cons el els li lis)
  from Cons(1) obtain it where "el = Element it" by (rule lineItem_Inr)
  moreover from Cons(3) obtain its where "els = map Element its"
    and "list_all2 (\<lambda>it li. lineItem v (Element it) = Inr li) its lis"
    by blast
  ultimately show ?case
    using Cons(1) by (intro exI [where x = "it # its"]) simp
qed

lemma lineItems_Inr:
  assumes "lineItems v its' = Inr lis"
  obtains its where "its' = ItemsArray (map Element its)"
    "list_all2 (\<lambda>it li. lineItem v (Element it) = Inr li) its lis"
proof -
  from assms obtain els where els: "its' = ItemsArray els"
    and "map_throwing (lineItem v) els = Inr lis"
    by (cases its') (simp_all add: lineItems_def)
  from this(2) have "list_all2 (\<lambda>el li. lineItem v el = Inr li) els lis"
    by (rule map_throwing_Inr)
  then obtain its where "els = map Element its"
    and "list_all2 (\<lambda>it li. lineItem v (Element it) = Inr li) its lis"
    using elements_are_objects by blast
  with els that show thesis
    by simp
qed

lemma customer_calls_only:
  assumes "getOrCreateCustomer P n s = (cid, s1)"
  shows "CreateOrder r \<in> set (calls s1) \<longleftrightarrow> CreateOrder r \<in> set (calls s)"
    and "CreatePayment p \<in> set (calls s1) \<longleftrightarrow> CreatePayment p \<in> set (calls s)"
    and "RetrieveCatalogObject i b \<in> set (calls s1) \<longleftrightarrow> RetrieveCatalogObject i b \<in> set (calls s)"
  using assms by (cases rule: getOrCreateCustomer_cases; simp)+

lemma catalog_state_calls:
  "calls (snd (getItemVariationId cfg P start)) = [RetrieveCatalogObject (CATALOG_ITEM_ID cfg) True]"
  by (simp add: getItemVariationId_state start_def)

lemma handler_CreateOrder:
  assumes "CreateOrder r \<in> set (calls (snd (handler cfg P req)))"
  obtains b v cid s1 lis res where
    "method req = ''POST''" "body req = Body b"
    "fst (getItemVariationId cfg P start) = Some v" "v \<noteq> []"
    "getOrCreateCustomer P (customerName b) (snd (getItemVariationId cfg P start)) = (cid, s1)"
    "lineItems v (items b) = Inr lis"
    "r = order_request_of cfg cid lis (uuid P (drawn s1))"
    "place_order cfg P b v cid s1 = (res, snd (handler cfg P req))"
proof -
  note out = that
  obtain res st where h: "handler cfg P req = (res, st)" by force
  with assms have m: "CreateOrder r \<in> set (calls st)" by simp
  have *: thesis
    if v: "method req = ''POST''" "body req = Body b"
        "fst (getItemVariationId cfg P start) = Some v" "v \<noteq> []"
      and c: "getOrCreateCustomer P (customerName b) (snd (getItemVariationId cfg P start)) = (cid, s1)"
      and p: "place_order cfg P b v cid s1 = (x, st)"
    for b v cid s1 x
  proof -
    have n: "CreateOrder r \<notin> set (calls s1)"
      using customer_calls_only(1) [OF c] by (simp add: catalog_state_calls)
    from p show thesis
      by (cases rule: place_order_cases) (use m n v c p h out [of b v cid s1 _ x] in \<open>auto\<close>)
  qed
  from h show thesis
    by (cases rule: handler_cases) (use m * in \<open>auto\<close>)
qed

lemma handler_resolved:
  assumes "method req = ''POST''" and "body req = Body b"
    and "fst (getItemVariationId cfg P start) = Some v" and "v \<noteq> []"
    and "getOrCreateCustomer P (customerName b) (snd (getItemVariationId cfg P start)) = (cid, s1)"
    and "place_order cfg P b v cid s1 = (x, st)"
  shows "handler cfg P req =
           (Inr (case x of
                   Inl e \<Rightarrow> \<lparr>status = 500, headers = cors, sent = Failure (error_text e)\<rparr>
                 | Inr json \<Rightarrow> \<lparr>status = 200, headers = cors, sent = json\<rparr>), st)"
proof -
  obtain s0 where "getItemVariationId cfg P start = (Some v, s0)"
    using assms(3) by (cases "getItemVariationId cfg P start") simp
  with assms show ?thesis
    by (simp add: handler_def checkout_def split: sum.splits)
qed

lemma handler_unresolved:
  assumes "method req = ''POST''" and "body req = Body b"
    and "fst (getItemVariationId cfg P start) = None \<or> fst (getItemVariationId cfg P start) = Some []"
  shows "handler cfg P req =
           (Inr \<lparr>status = 500, headers = cors, sent = Failure ''Item variation not configured''\<rparr>,
            snd (getItemVariationId cfg P start))"
  using assms by (cases "getItemVariationId cfg P start") (auto simp: handler_def)

lemma handler_CreatePayment:
  assumes "CreatePayment p \<in> set (calls (snd (handler cfg P req)))"
  obtains b v cid s1 lis ores ord cents res where
    "method req = ''POST''" "body req = Body b"
    "fst (getItemVariationId cfg P start) = Some v" "v \<noteq> []"
    "getOrCreateCustomer P (customerName b) (snd (getItemVariationId cfg P start)) = (cid, s1)"
    "lineItems v (items b) = Inr lis"
    "createOrder P (order_request_of cfg cid lis (uuid P (drawn s1))) = Inr ores"
    "created_order ores = Some ord"
    "BigInt (Math_round (multiply (ToNumber (amount b)) (Fin 100))) = Inr cents"
    "p = payment_request_of cfg b cid ord (uuid P (Suc (drawn s1))) cents"
    "calls (snd (handler cfg P req)) =
       calls s1 @ [CreateOrder (order_request_of cfg cid lis (uuid P (drawn s1))), CreatePayment p]"
    "place_order cfg P b v cid s1 = (res, snd (handler cfg P req))"
proof -
  note out = that
  obtain res st where h: "handler cfg P req = (res, st)" by force
  with assms have m: "CreatePayment p \<in> set (calls st)" by simp
  have *: thesis
    if v: "method req = ''POST''" "body req = Body b"
        "fst (getItemVariationId cfg P start) = Some v" "v \<noteq> []"
      and c: "getOrCreateCustomer P (customerName b) (snd (getItemVariationId cfg P start)) = (cid, s1)"
      and p: "place_order cfg P b v cid s1 = (x, st)"
    for b v cid s1 x
  proof -
    have n: "CreatePayment p \<notin> set (calls s1)"
      using customer_calls_only(2) [OF c] by (simp add: catalog_state_calls)
    from p show thesis
      by (cases rule: place_order_cases) (use m n v c p h out [of b v cid s1 _ _ _ _ x] in \<open>auto\<close>)
  qed
  from h show thesis
    by (cases rule: handler_cases) (use m * in \<open>auto\<close>)
qed

lemma error_text_detail:
  "errors e = Some (a # as) \<Longrightarrow> detail a = Some d \<Longrightarrow> d \<noteq> [] \<Longrightarrow> error_text e = d"
  by (simp add: error_text_def)

lemma error_text_message:
  "errors e = None \<or> errors e = Some []
     \<or> (\<exists>a as. errors e = Some (a # as) \<and> (detail a = None \<or> detail a = Some []))
   \<Longrightarrow> error_text e = message e"
  by (auto simp: error_text_def)

lemma place_order_keeps_customer_calls:
  assumes "place_order cfg P b v cid s = (x, s')"
  shows "SearchCustomers k \<in> set (calls s') \<longleftrightarrow> SearchCustomers k \<in> set (calls s)"
    and "CreateCustomer q \<in> set (calls s') \<longleftrightarrow> CreateCustomer q \<in> set (calls s)"
  using assms by (cases rule: place_order_cases; simp)+

lemma rejected_customer_call:
  assumes "getOrCreateCustomer P n s = (cid, s1)"
    and "(\<exists>k e. SearchCustomers k \<in> set (calls s1) \<and> SearchCustomers k \<notin> set (calls s)
                \<and> searchCustomers P k = Inl e)
       \<or> (\<exists>q e. CreateCustomer q \<in> set (calls s1) \<and> CreateCustomer q \<notin> set (calls s)
                \<and> createCustomer P q = Inl e)"
  shows "cid = None"
  using assms(1) by (cases rule: getOrCreateCustomer_cases) (use assms(2) in \<open>auto\<close>)

section \<open>The text of a Number\<close>

lemma fl_2: "fl 2 = Fin 2"
  by (rule fl_Fin [where k = 1 and e = "- 51" and m = "2 ^ 52"])
     (simp_all add: power_int_minus round_half_even_near)

lemma round_half_even_int: "round_half_even (of_int n) = n"
  by (simp add: round_half_even_def)

lemma ilog10_2: "ilog10 2 = 0" by code_simp

lemma digits_2: "digits 2 = ''2''" by code_simp

lemma quantity_2: "String_number (Some (Fin 2)) = ''2''"
  using round_half_even_int [of 2]
  by (simp add: String_number_def positive_toString_def round_trip_def ilog10_2 fl_2 digits_2
        numeral_eq_Suc)

lemma not_an_integer_NaN:
  "not_an_integer NaN
     = RangeError ''The number NaN cannot be converted to a BigInt because it is not an integer''"
  by (simp add: not_an_integer_def)

section \<open>Items that cannot be used\<close>

lemma lineItem_usable:
  assumes "usable_element el"
  shows "\<exists>li. lineItem v el = Inr li"
proof -
  from assms obtain it x where "el = Element it" "multiply (ToNumber (price it)) (Fin 100) = Fin x"
    by (cases el) (auto simp: priced_def split: js_number.splits)
  then show ?thesis
    by (simp add: lineItem_def)
qed

lemma lineItem_unusable:
  assumes "\<not> usable_element el"
  shows "lineItem v el =
           Inl (case el of
                  ElementNull \<Rightarrow> TypeError ''Cannot read properties of null (reading 'quantity')''
                | Element it \<Rightarrow> not_an_integer (multiply (ToNumber (price it)) (Fin 100)))"
proof (cases el)
  case ElementNull
  then show ?thesis by (simp add: lineItem_def)
next
  case (Element it)
  with assms show ?thesis
    by (cases "multiply (ToNumber (price it)) (Fin 100)") (simp_all add: lineItem_def priced_def)
qed

lemma map_throwing_first:
  assumes "first_unusable els = Some el" and "lineItem v el = Inl e"
  shows "map_throwing (lineItem v) els = Inl e"
  using assms(1)
proof (induction els)
  case Nil
  then show ?case by (simp add: first_unusable_def)
next
  case (Cons x xs)
  show ?case
  proof (cases "usable_element x")
    case False
    with Cons(2) have "el = x" by (simp add: first_unusable_def)
    with assms(2) show ?thesis by simp
  next
    case True
    with Cons(2) have f: "first_unusable xs = Some el" by (simp add: first_unusable_def)
    moreover from True obtain li where "lineItem v x = Inr li" using lineItem_usable by blast
    ultimately show ?thesis using Cons(1) by simp
  qed
qed

lemma map_throwing_usable:
  "list_all usable_element els \<Longrightarrow> \<exists>lis. map_throwing (lineItem v) els = Inr lis"
proof (induction els)
  case Nil
  show ?case by simp
next
  case (Cons x xs)
  then obtain li lis where "lineItem v x = Inr li" "map_throwing (lineItem v) xs = Inr lis"
    using lineItem_usable [of x v] by auto
  then show ?case by simp
qed

lemma usable_iff: "usable its \<longleftrightarrow> (\<exists>lis. lineItems v its = Inr lis)"
proof (cases its)
  case (ItemsArray els)
  show ?thesis
  proof (cases "list_all usable_element els")
    case True
    with ItemsArray show ?thesis using map_throwing_usable [of els v] by (simp add: lineItems_def)
  next
    case False
    then obtain el where f: "first_unusable els = Some el"
      by (cases "first_unusable els") (auto simp: first_unusable_def find_None_iff list_all_iff)
    then have "\<not> usable_element el" by (auto simp: first_unusable_def find_Some_iff)
    then obtain e where "lineItem v el = Inl e" by (simp add: lineItem_unusable)
    with False ItemsArray map_throwing_first [OF f, of v e] show ?thesis
      by (simp add: lineItems_def)
  qed
qed (simp_all add: lineItems_def)

lemma unusable_items:
  assumes "\<not> usable its"
  shows "\<exists>e. (\<forall>w. lineItems w its = Inl e) \<and> errors e = None
    \<and> (its = ItemsUndefined
         \<longrightarrow> e = TypeError ''Cannot read properties of undefined (reading 'map')'')
    \<and> (its = ItemsNull \<longrightarrow> e = TypeError ''Cannot read properties of null (reading 'map')'')
    \<and> (its = ItemsOther \<longrightarrow> e = TypeError ''items.map is not a function'')
    \<and> (\<forall>els el. its = ItemsArray els \<and> first_unusable els = Some el \<longrightarrow>
           e = (case el of
                  ElementNull \<Rightarrow> TypeError ''Cannot read properties of null (reading 'quantity')''
                | Element it \<Rightarrow> not_an_integer (multiply (ToNumber (price it)) (Fin 100))))"
proof (cases its)
  case ItemsUndefined
  show ?thesis
  proof (intro exI conjI allI impI)
    show "lineItems w its = Inl (TypeError ''Cannot read properties of undefined (reading 'map')'')" for w
      by (simp only: ItemsUndefined lineItems_def items_value.case)
    show "errors (TypeError ''Cannot read properties of undefined (reading 'map')'') = None"
      by (simp only: TypeError_def js_error.select_convs)
  qed (simp_all only: ItemsUndefined items_value.distinct simp_thms)
next
  case ItemsNull
  show ?thesis
  proof (intro exI conjI allI impI)
    show "lineItems w its = Inl (TypeError ''Cannot read properties of null (reading 'map')'')" for w
      by (simp only: ItemsNull lineItems_def items_value.case)
    show "errors (TypeError ''Cannot read properties of null (reading 'map')'') = None"
      by (simp only: TypeError_def js_error.select_convs)
  qed (simp_all only: ItemsNull items_value.distinct simp_thms)
next
  case ItemsOther
  show ?thesis
  proof (intro exI conjI allI impI)
    show "lineItems w its = Inl (TypeError ''items.map is not a function'')" for w
      by (simp only: ItemsOther lineItems_def items_value.case)
    show "errors (TypeError ''items.map is not a function'') = None"
      by (simp only: TypeError_def js_error.select_convs)
  qed (simp_all only: ItemsOther items_value.distinct simp_thms)
next
  case (ItemsArray els)
  with assms obtain el where f: "first_unusable els = Some el"
    by (cases "first_unusable els") (auto simp: first_unusable_def find_None_iff list_all_iff)
  then have u: "\<not> usable_element el" by (auto simp: first_unusable_def find_Some_iff)
  let ?e = "case el of
              ElementNull \<Rightarrow> TypeError ''Cannot read properties of null (reading 'quantity')''
            | Element it \<Rightarrow> not_an_integer (multiply (ToNumber (price it)) (Fin 100))"
  show ?thesis
  proof (intro exI conjI allI impI)
    show "lineItems w its = Inl ?e" for w
      using map_throwing_first [OF f lineItem_unusable [OF u, of w]]
      by (simp only: ItemsArray lineItems_def items_value.case)
    show "errors ?e = None"
      by (cases el) (simp_all add: TypeError_def RangeError_def not_an_integer_def)
    show "?e = (case el' of
                  ElementNull \<Rightarrow> TypeError ''Cannot read properties of null (reading 'quantity')''
                | Element it \<Rightarrow> not_an_integer (multiply (ToNumber (price it)) (Fin 100)))"
      if "its = ItemsArray els' \<and> first_unusable els' = Some el'" for els' el'
      using that f by (simp add: ItemsArray)
  qed (simp_all only: ItemsArray items_value.distinct simp_thms)
qed

section \<open>The sample runs\<close>

lemma key_Ann: "replace_spaces (toLowerCase ''Ann Lee'') = ''ann_lee''" by code_simp
lemma parts_Ann: "split_space (trim ''Ann Lee'') = [''Ann'', ''Lee'']" by code_simp

lemmas run_defs = handler_def getItemVariationId_def checkout_def
  getOrCreateCustomer_def customer_request_of_def place_order_def lineItems_def lineItem_def
  order_request_of_def payment_request_of_def remote_def randomUUID_def start_def
  ToNumber_def String_str_def Let_def
  example_config_def example_platform_def example_body_def example_request_def

lemmas run_facts = fl_500 fl_1000 key_Ann parts_Ann quantity_2 floor_rat_numeral

lemma example_run:
  "handler example_config example_platform example_request =
    (Inr \<lparr>status = 200, headers = cors, sent = Success ''PAY1'' ''ORD1'' ''COMPLETED''\<rparr>,
     \<lparr>calls =
       [RetrieveCatalogObject ''ITEM'' True, SearchCustomers ''ann_lee'',
        CreateCustomer
         \<lparr>cust_givenName = ''Ann'', cust_familyName = ''Lee'',
            cust_referenceId = ''ann_lee'', cust_idempotencyKey = ''uuid-0''\<rparr>,
        CreateOrder
         \<lparr>ord_locationId = ''LOC'', ord_customerId = Some ''CUST1'',
            ord_lineItems =
              [\<lparr>li_quantity = ''2'', li_catalogObjectId = ''VAR1'',
                  li_basePriceMoney = \<lparr>money_amount = 500, money_currency = ''USD''\<rparr>,
                  li_note = ''Latte''\<rparr>],
            ord_state = ''OPEN'', ord_idempotencyKey = ''uuid-1''\<rparr>,
        CreatePayment
         \<lparr>pay_sourceId = Some ''tok1'', pay_idempotencyKey = ''uuid-2'',
            pay_amountMoney = \<lparr>money_amount = 1000, money_currency = ''USD''\<rparr>,
            pay_locationId = ''LOC'', pay_orderId = ''ORD1'',
            pay_customerId = Some ''CUST1'',
            pay_note = ''Pickup: 2024-06-01''\<rparr>],
       drawn = 3\<rparr>)"
  by (simp add: run_defs run_facts)

lemma orders_down_run:
  "handler example_config orders_down example_request =
    (Inr \<lparr>status = 500, headers = cors, sent = Failure ''Service unavailable''\<rparr>,
     \<lparr>calls =
       [RetrieveCatalogObject ''ITEM'' True, SearchCustomers ''ann_lee'',
        CreateCustomer
         \<lparr>cust_givenName = ''Ann'', cust_familyName = ''Lee'',
            cust_referenceId = ''ann_lee'', cust_idempotencyKey = ''uuid-0''\<rparr>,
        CreateOrder
         \<lparr>ord_locationId = ''LOC'', ord_customerId = Some ''CUST1'',
            ord_lineItems =
              [\<lparr>li_quantity = ''2'', li_catalogObjectId = ''VAR1'',
                  li_basePriceMoney = \<lparr>money_amount = 500, money_currency = ''USD''\<rparr>,
                  li_note = ''Latte''\<rparr>],
            ord_state = ''OPEN'', ord_idempotencyKey = ''uuid-1''\<rparr>],
       drawn = 2\<rparr>)"
  by (simp add: run_defs run_facts orders_down_def rejection_def error_text_def)

lemma payments_down_run:
  "handler example_config payments_down example_request =
    (Inr \<lparr>status = 500, headers = cors, sent = Failure ''Card declined''\<rparr>,
     \<lparr>calls =
       [RetrieveCatalogObject ''ITEM'' True, SearchCustomers ''ann_lee'',
        CreateCustomer
         \<lparr>cust_givenName = ''Ann'', cust_familyName = ''Lee'',
            cust_referenceId = ''ann_lee'', cust_idempotencyKey = ''uuid-0''\<rparr>,
        CreateOrder
         \<lparr>ord_locationId = ''LOC'', ord_customerId = Some ''CUST1'',
            ord_lineItems =
              [\<lparr>li_quantity = ''2'', li_catalogObjectId = ''VAR1'',
                  li_basePriceMoney = \<lparr>money_amount = 500, money_currency = ''USD''\<rparr>,
                  li_note = ''Latte''\<rparr>],
            ord_state = ''OPEN'', ord_idempotencyKey = ''uuid-1''\<rparr>,
        CreatePayment
         \<lparr>pay_sourceId = Some ''tok1'', pay_idempotencyKey = ''uuid-2'',
            pay_amountMoney = \<lparr>money_amount = 1000, money_currency = ''USD''\<rparr>,
            pay_locationId = ''LOC'', pay_orderId = ''ORD1'',
            pay_customerId = Some ''CUST1'',
            pay_note = ''Pickup: 2024-06-01''\<rparr>],
       drawn = 3\<rparr>)"
  by (simp add: run_defs run_facts payments_down_def declined_def error_text_def)

lemma search_down_run:
  "handler example_config search_down example_request =
    (Inr \<lparr>status = 200, headers = cors, sent = Success ''PAY1'' ''ORD1'' ''COMPLETED''\<rparr>,
     \<lparr>calls =
       [RetrieveCatalogObject ''ITEM'' True, SearchCustomers ''ann_lee'',
        CreateOrder
         \<lparr>ord_locationId = ''LOC'', ord_customerId = None,
            ord_lineItems =
              [\<lparr>li_quantity = ''2'', li_catalogObjectId = ''VAR1'',
                  li_basePriceMoney = \<lparr>money_amount = 500, money_currency = ''USD''\<rparr>,
                  li_note = ''Latte''\<rparr>],
            ord_state = ''OPEN'', ord_idempotencyKey = ''uuid-0''\<rparr>,
        CreatePayment
         \<lparr>pay_sourceId = Some ''tok1'', pay_idempotencyKey = ''uuid-1'',
            pay_amountMoney = \<lparr>money_amount = 1000, money_currency = ''USD''\<rparr>,
            pay_locationId = ''LOC'', pay_orderId = ''ORD1'',
            pay_customerId = None,
            pay_note = ''Pickup: 2024-06-01''\<rparr>],
       drawn = 2\<rparr>)"
  by (simp add: run_defs run_facts search_down_def rejection_def error_text_def)

lemma example_variation:
  "fst (getItemVariationId example_config example_platform start) = Some ''VAR1''"
  by (simp add: getItemVariationId_result example_platform_def)

lemma search_down_variation:
  "fst (getItemVariationId example_config search_down start) = Some ''VAR1''"
  by (simp add: getItemVariationId_result search_down_def example_platform_def)

lemma rounding_run:
  "map amounts (calls (snd (handler example_config example_platform rounding_request)))
     = [[], [], [], [1235], [1000]]"
  by (simp add: run_defs rounding_request_def rounding_body_def amounts_def
        cents_12_345 cents_9_999 key_Ann parts_Ann quantity_2)

lemma boundary_run:
  "map amounts (calls (snd (handler example_config example_platform boundary_request)))
     = [[], [], [], [100, 2], [100]]"
  by (simp add: run_defs boundary_request_def boundary_body_def amounts_def
        cents_1_005 cents_0_015 key_Ann parts_Ann quantity_2)

lemma product_12_345: "multiply (decimal 12345 3) (Fin 100) = Fin (2469 / 2)"
  by (simp only: decimal_12_345 multiply.simps times_100_12_345)

lemma product_9_999: "multiply (decimal 9999 3) (Fin 100) = Fin (8795213412905780 / 2 ^ 43)"
  by (simp only: decimal_9_999 multiply.simps times_100_9_999)

lemma rounding_calls:
  "CreateOrder rounding_order
     \<in> set (calls (snd (handler example_config example_platform rounding_request)))"
  "CreatePayment rounding_payment
     \<in> set (calls (snd (handler example_config example_platform rounding_request)))"
  by (simp_all add: run_defs rounding_request_def rounding_body_def rounding_order_def
        rounding_payment_def cents_12_345 cents_9_999 key_Ann parts_Ann quantity_2)

section \<open>Methods other than POST\<close>

text \<open>
  Claim C8. For every request whose method is neither \<open>POST\<close> nor \<open>OPTIONS\<close> the handler
  answers with status 405 and the body \<open>{error: "Method not allowed"}\<close>, and it makes no
  call to the remote platform. The body of the request is not looked at.
\<close>

theorem method_not_allowed:
  assumes "method req \<noteq> ''POST''" and "method req \<noteq> ''OPTIONS''"
  shows "fst (handler cfg P req)
           = Inr \<lparr>status = 405, headers = cors, sent = MethodError ''Method not allowed''\<rparr>
       \<and> calls (snd (handler cfg P req)) = []"
  using assms by (simp add: handler_def start_def)

theorem method_not_allowed_witness:
  "fst (handler example_config example_platform \<lparr>method = ''GET'', body = Body example_body\<rparr>)
     = Inr \<lparr>status = 405, headers = cors, sent = MethodError ''Method not allowed''\<rparr>
 \<and> calls (snd (handler example_config example_platform \<lparr>method = ''GET'', body = Body example_body\<rparr>)) = []
 \<and> fst (handler example_config example_platform \<lparr>method = ''DELETE'', body = BodyUndefined\<rparr>)
     = Inr \<lparr>status = 405, headers = cors, sent = MethodError ''Method not allowed''\<rparr>
 \<and> calls (snd (handler example_config example_platform \<lparr>method = ''DELETE'', body = BodyUndefined\<rparr>)) = []"
  using method_not_allowed [of "\<lparr>method = ''GET'', body = Body example_body\<rparr>" example_config example_platform]
    method_not_allowed [of "\<lparr>method = ''DELETE'', body = BodyUndefined\<rparr>" example_config example_platform]
  by simp

section \<open>An unresolved catalog variation\<close>




section \<open>A failing order creation\<close>

text \<open>
  Claim C4. For every request in which the order creation call is rejected, no payment
  call is made, and the handler answers with status 500 and a body whose \<open>error\<close> is the
  first structured detail of the thrown error when it has a non-empty one, and the
  message of the error otherwise.
\<close>

theorem order_creation_throws:
  assumes "CreateOrder r \<in> set (calls (snd (handler cfg P req)))" and "createOrder P r = Inl e"
  shows "fst (handler cfg P req)
           = Inr \<lparr>status = 500, headers = cors, sent = Failure (error_text e)\<rparr>
       \<and> (\<forall>p. CreatePayment p \<notin> set (calls (snd (handler cfg P req))))
       \<and> (\<forall>a as d. errors e = Some (a # as) \<and> detail a = Some d \<and> d \<noteq> [] \<longrightarrow> error_text e = d)
       \<and> (errors e = None \<or> errors e = Some []
            \<or> (\<exists>a as. errors e = Some (a # as) \<and> (detail a = None \<or> detail a = Some []))
          \<longrightarrow> error_text e = message e)"
proof -
  from assms(1) obtain b v cid s1 lis res where
    v: "method req = ''POST''" "body req = Body b"
      "fst (getItemVariationId cfg P start) = Some v" "v \<noteq> []"
    and c: "getOrCreateCustomer P (customerName b) (snd (getItemVariationId cfg P start)) = (cid, s1)"
    and l: "lineItems v (items b) = Inr lis"
    and r: "r = order_request_of cfg cid lis (uuid P (drawn s1))"
    and p: "place_order cfg P b v cid s1 = (res, snd (handler cfg P req))"
    by (rule handler_CreateOrder)
  have n: "CreatePayment q \<notin> set (calls s1)" for q
    using customer_calls_only(2) [OF c] by (simp add: catalog_state_calls)
  from p have "res = Inl e \<and> calls (snd (handler cfg P req)) = calls s1 @ [CreateOrder r]"
    by (cases rule: place_order_cases) (use assms(2) l r in \<open>auto\<close>)
  then have "handler cfg P req =
      (Inr \<lparr>status = 500, headers = cors, sent = Failure (error_text e)\<rparr>, snd (handler cfg P req))"
    and "\<forall>q. CreatePayment q \<notin> set (calls (snd (handler cfg P req)))"
    using handler_resolved [OF v c p] n by simp_all
  then show ?thesis
    using error_text_detail [of e] error_text_message [of e]
    by (metis fst_conv)
qed

theorem order_creation_throws_witness:
  "CreateOrder example_order \<in> set (calls (snd (handler example_config orders_down example_request)))
 \<and> createOrder orders_down example_order = Inl rejection
 \<and> fst (handler example_config orders_down example_request)
     = Inr \<lparr>status = 500, headers = cors, sent = Failure ''Service unavailable''\<rparr>
 \<and> (\<forall>p. CreatePayment p \<notin> set (calls (snd (handler example_config orders_down example_request))))"
proof -
  have h1: "CreateOrder example_order
              \<in> set (calls (snd (handler example_config orders_down example_request)))"
    by (simp add: orders_down_run example_order_def)
  have h2: "createOrder orders_down example_order = Inl rejection"
    by (simp add: orders_down_def)
  show ?thesis
    using h1 h2 order_creation_throws [OF h1 h2] by (simp add: rejection_def error_text_def)
qed

section \<open>A failing payment\<close>

text \<open>
  Claim C5. For every request in which the order was created and the payment call is then
  rejected, the handler answers with status 500 and a body whose \<open>error\<close> is the first
  structured detail of the thrown error when it has a non-empty one, and the message of
  the error otherwise; and the created order is left as it is: the rejected payment call,
  which names the order, is the last remote call of the request, and no other order or
  payment call was made.
\<close>

theorem payment_creation_throws:
  assumes "CreatePayment p \<in> set (calls (snd (handler cfg P req)))" and "createPayment P p = Inl e"
  shows "fst (handler cfg P req)
           = Inr \<lparr>status = 500, headers = cors, sent = Failure (error_text e)\<rparr>
       \<and> (\<forall>a as d. errors e = Some (a # as) \<and> detail a = Some d \<and> d \<noteq> [] \<longrightarrow> error_text e = d)
       \<and> (errors e = None \<or> errors e = Some []
            \<or> (\<exists>a as. errors e = Some (a # as) \<and> (detail a = None \<or> detail a = Some []))
          \<longrightarrow> error_text e = message e)
       \<and> (\<exists>before r created ord.
             calls (snd (handler cfg P req)) = before @ [CreateOrder r, CreatePayment p]
           \<and> createOrder P r = Inr created \<and> created_order created = Some ord
           \<and> pay_orderId p = order_id ord
           \<and> (\<forall>r'. CreateOrder r' \<notin> set before) \<and> (\<forall>p'. CreatePayment p' \<notin> set before))"
proof -
  from assms(1) obtain b v cid s1 lis ores ord cents res where
    v: "method req = ''POST''" "body req = Body b"
      "fst (getItemVariationId cfg P start) = Some v" "v \<noteq> []"
    and c: "getOrCreateCustomer P (customerName b) (snd (getItemVariationId cfg P start)) = (cid, s1)"
    and o: "createOrder P (order_request_of cfg cid lis (uuid P (drawn s1))) = Inr ores"
      "created_order ores = Some ord"
    and p: "p = payment_request_of cfg b cid ord (uuid P (Suc (drawn s1))) cents"
    and t: "calls (snd (handler cfg P req)) =
       calls s1 @ [CreateOrder (order_request_of cfg cid lis (uuid P (drawn s1))), CreatePayment p]"
    and po: "place_order cfg P b v cid s1 = (res, snd (handler cfg P req))"
    by (rule handler_CreatePayment)
  have n: "CreateOrder r' \<notin> set (calls s1)" "CreatePayment p' \<notin> set (calls s1)" for r' p'
    using customer_calls_only(1,2) [OF c] by (simp_all add: catalog_state_calls)
  from po have "res = Inl e"
    by (cases rule: place_order_cases) (use assms(2) p t in \<open>auto\<close>)
  then have "handler cfg P req =
      (Inr \<lparr>status = 500, headers = cors, sent = Failure (error_text e)\<rparr>, snd (handler cfg P req))"
    using handler_resolved [OF v c po] by simp
  then have 1: "fst (handler cfg P req)
      = Inr \<lparr>status = 500, headers = cors, sent = Failure (error_text e)\<rparr>"
    by (metis fst_conv)
  have 2: "\<forall>a as d. errors e = Some (a # as) \<and> detail a = Some d \<and> d \<noteq> [] \<longrightarrow> error_text e = d"
    using error_text_detail [of e] by blast
  have 3: "errors e = None \<or> errors e = Some []
            \<or> (\<exists>a as. errors e = Some (a # as) \<and> (detail a = None \<or> detail a = Some []))
          \<longrightarrow> error_text e = message e"
    using error_text_message [of e] by blast
  have "pay_orderId p = order_id ord"
    by (simp add: p payment_request_of_def)
  with t o n have 4: "\<exists>before r created ord.
             calls (snd (handler cfg P req)) = before @ [CreateOrder r, CreatePayment p]
           \<and> createOrder P r = Inr created \<and> created_order created = Some ord
           \<and> pay_orderId p = order_id ord
           \<and> (\<forall>r'. CreateOrder r' \<notin> set before) \<and> (\<forall>p'. CreatePayment p' \<notin> set before)"
    by blast
  from 1 2 3 4 show ?thesis
    by (intro conjI)
qed

theorem payment_creation_throws_witness:
  "CreatePayment example_payment
     \<in> set (calls (snd (handler example_config payments_down example_request)))
 \<and> createPayment payments_down example_payment = Inl declined
 \<and> errors declined = Some [\<lparr>detail = Some ''Card declined''\<rparr>]
 \<and> fst (handler example_config payments_down example_request)
     = Inr \<lparr>status = 500, headers = cors, sent = Failure ''Card declined''\<rparr>
 \<and> last (calls (snd (handler example_config payments_down example_request)))
       = CreatePayment example_payment"
proof -
  have h1: "CreatePayment example_payment
              \<in> set (calls (snd (handler example_config payments_down example_request)))"
    by (simp add: payments_down_run example_payment_def)
  have h2: "createPayment payments_down example_payment = Inl declined"
    by (simp add: payments_down_def)
  have d: "errors declined = Some [\<lparr>detail = Some ''Card declined''\<rparr>]"
    by (simp add: declined_def)
  from payment_creation_throws [OF h1 h2] have
    "fst (handler example_config payments_down example_request)
       = Inr \<lparr>status = 500, headers = cors, sent = Failure (error_text declined)\<rparr>"
    and "\<forall>a as d. errors declined = Some (a # as) \<and> detail a = Some d \<and> d \<noteq> []
          \<longrightarrow> error_text declined = d"
    and "last (calls (snd (handler example_config payments_down example_request)))
       = CreatePayment example_payment"
    by auto
  with d have
    "fst (handler example_config payments_down example_request)
       = Inr \<lparr>status = 500, headers = cors, sent = Failure ''Card declined''\<rparr>"
    and "last (calls (snd (handler example_config payments_down example_request)))
       = CreatePayment example_payment"
    by simp_all
  with h1 h2 d show ?thesis
    by (intro conjI)
qed

section \<open>The currency\<close>

text \<open>
  Claim C9. Every amount of money the handler sends to the platform, the base price of
  every line item of an order and the amount of the payment, carries the currency
  \<open>USD\<close>, whatever the request holds.
\<close>

theorem currency_is_USD:
  "(CreateOrder r \<in> set (calls (snd (handler cfg P req)))
      \<longrightarrow> (\<forall>li \<in> set (ord_lineItems r). money_currency (li_basePriceMoney li) = ''USD''))
 \<and> (CreatePayment p \<in> set (calls (snd (handler cfg P req)))
      \<longrightarrow> money_currency (pay_amountMoney p) = ''USD'')"
proof (intro conjI impI ballI)
  fix li
  assume a: "CreateOrder r \<in> set (calls (snd (handler cfg P req)))"
    and li: "li \<in> set (ord_lineItems r)"
  from a obtain b v cid s1 lis res where
    "method req = ''POST''" "body req = Body b"
    "fst (getItemVariationId cfg P start) = Some v" "v \<noteq> []"
    "getOrCreateCustomer P (customerName b) (snd (getItemVariationId cfg P start)) = (cid, s1)"
    and l: "lineItems v (items b) = Inr lis"
    and r: "r = order_request_of cfg cid lis (uuid P (drawn s1))"
    and "place_order cfg P b v cid s1 = (res, snd (handler cfg P req))"
    by (rule handler_CreateOrder)
  from l obtain its where "list_all2 (\<lambda>it li. lineItem v (Element it) = Inr li) its lis"
    by (rule lineItems_Inr)
  moreover have "li \<in> set lis" using li r by (simp add: order_request_of_def)
  ultimately obtain it where "lineItem v (Element it) = Inr li"
    by (auto simp: list_all2_conv_all_nth in_set_conv_nth)
  then show "money_currency (li_basePriceMoney li) = ''USD''"
    by (rule lineItem_Inr)
next
  assume "CreatePayment p \<in> set (calls (snd (handler cfg P req)))"
  then obtain b v cid s1 lis ores ord cents res where
    "method req = ''POST''" "body req = Body b"
    "fst (getItemVariationId cfg P start) = Some v" "v \<noteq> []"
    "getOrCreateCustomer P (customerName b) (snd (getItemVariationId cfg P start)) = (cid, s1)"
    "lineItems v (items b) = Inr lis"
    "createOrder P (order_request_of cfg cid lis (uuid P (drawn s1))) = Inr ores"
    "created_order ores = Some ord"
    "BigInt (Math_round (multiply (ToNumber (amount b)) (Fin 100))) = Inr cents"
    "p = payment_request_of cfg b cid ord (uuid P (Suc (drawn s1))) cents"
    "calls (snd (handler cfg P req)) =
       calls s1 @ [CreateOrder (order_request_of cfg cid lis (uuid P (drawn s1))), CreatePayment p]"
    "place_order cfg P b v cid s1 = (res, snd (handler cfg P req))"
    by (rule handler_CreatePayment)
  then show "money_currency (pay_amountMoney p) = ''USD''"
    by (simp add: payment_request_of_def)
qed

theorem currency_is_USD_witness:
  "CreateOrder example_order \<in> set (calls (snd (handler example_config example_platform example_request)))
 \<and> map (\<lambda>li. money_currency (li_basePriceMoney li)) (ord_lineItems example_order) = [''USD'']
 \<and> CreatePayment example_payment
      \<in> set (calls (snd (handler example_config example_platform example_request)))
 \<and> money_currency (pay_amountMoney example_payment) = ''USD''"
proof -
  have h1: "CreateOrder example_order
              \<in> set (calls (snd (handler example_config example_platform example_request)))"
    by (simp add: example_run example_order_def)
  have h2: "CreatePayment example_payment
              \<in> set (calls (snd (handler example_config example_platform example_request)))"
    by (simp add: example_run example_payment_def)
  have one: "length (ord_lineItems example_order) = 1"
    by (simp add: example_order_def)
  from h1 h2 currency_is_USD [of example_order example_config example_platform example_request
      example_payment]
  have "\<forall>li \<in> set (ord_lineItems example_order). money_currency (li_basePriceMoney li) = ''USD''"
    and p: "money_currency (pay_amountMoney example_payment) = ''USD''"
    by blast+
  then have "map (\<lambda>li. money_currency (li_basePriceMoney li)) (ord_lineItems example_order)
      = replicate (length (ord_lineItems example_order)) ''USD''"
    by (simp add: map_replicate_const [symmetric] cong: map_cong)
  then show ?thesis
    using h1 h2 p one by simp
qed

section \<open>A failing customer resolution\<close>

text \<open>
  Claim C6. For every \<open>POST\<close> request that has passed the catalog resolution, a remote
  failure of the customer search or of the customer creation cannot fail the request: the
  resolver returns \<open>null\<close>, the handler goes on exactly as the rest of its \<open>try\<close> does
  with no customer, and whenever the line items can be built the order is created with
  no customer attached. No order and no payment of the request names a customer.
\<close>

theorem customer_failure_is_swallowed:
  assumes "method req = ''POST''"
    and "fst (getItemVariationId cfg P start) = Some v" and "v \<noteq> []"
    and "(\<exists>k e. SearchCustomers k \<in> set (calls (snd (handler cfg P req)))
                \<and> searchCustomers P k = Inl e)
       \<or> (\<exists>q e. CreateCustomer q \<in> set (calls (snd (handler cfg P req)))
                \<and> createCustomer P q = Inl e)"
  shows "(\<exists>b. body req = Body b
           \<and> fst (getOrCreateCustomer P (customerName b) (snd (getItemVariationId cfg P start)))
               = None
           \<and> handler cfg P req =
               (case place_order cfg P b v None
                       (snd (getOrCreateCustomer P (customerName b)
                              (snd (getItemVariationId cfg P start)))) of
                  (Inl e, st) \<Rightarrow>
                    (Inr \<lparr>status = 500, headers = cors, sent = Failure (error_text e)\<rparr>, st)
                | (Inr json, st) \<Rightarrow> (Inr \<lparr>status = 200, headers = cors, sent = json\<rparr>, st))
           \<and> (\<forall>lis. lineItems v (items b) = Inr lis \<longrightarrow>
                 (\<exists>r. CreateOrder r \<in> set (calls (snd (handler cfg P req)))
                      \<and> ord_customerId r = None \<and> ord_lineItems r = lis)))
       \<and> (\<forall>r. CreateOrder r \<in> set (calls (snd (handler cfg P req))) \<longrightarrow> ord_customerId r = None)
       \<and> (\<forall>p. CreatePayment p \<in> set (calls (snd (handler cfg P req))) \<longrightarrow> pay_customerId p = None)"
proof -
  obtain b where b: "body req = Body b"
  proof (cases "body req")
    case (Body b)
    then show ?thesis by (rule that)
  next
    case BodyUndefined
    with assms(1) have "calls (snd (handler cfg P req)) = []"
      by (simp add: handler_def start_def)
    with assms(4) show ?thesis by simp
  next
    case BodyNull
    with assms(1) have "calls (snd (handler cfg P req)) = []"
      by (simp add: handler_def start_def)
    with assms(4) show ?thesis by simp
  qed
  obtain cid s1 where
    c: "getOrCreateCustomer P (customerName b) (snd (getItemVariationId cfg P start)) = (cid, s1)"
    by force
  obtain x st where p: "place_order cfg P b v cid s1 = (x, st)"
    by force
  have h: "handler cfg P req =
           (Inr (case x of
                   Inl e \<Rightarrow> \<lparr>status = 500, headers = cors, sent = Failure (error_text e)\<rparr>
                 | Inr json \<Rightarrow> \<lparr>status = 200, headers = cors, sent = json\<rparr>), st)"
    by (rule handler_resolved [OF assms(1) b assms(2,3) c p])
  then have st: "snd (handler cfg P req) = st" by simp
  have "(\<exists>k e. SearchCustomers k \<in> set (calls s1)
              \<and> SearchCustomers k \<notin> set (calls (snd (getItemVariationId cfg P start)))
              \<and> searchCustomers P k = Inl e)
      \<or> (\<exists>q e. CreateCustomer q \<in> set (calls s1)
              \<and> CreateCustomer q \<notin> set (calls (snd (getItemVariationId cfg P start)))
              \<and> createCustomer P q = Inl e)"
    using assms(4) place_order_keeps_customer_calls [OF p]
    by (simp add: st catalog_state_calls)
  with c have cid: "cid = None" by (rule rejected_customer_call)
  have 1: "fst (getOrCreateCustomer P (customerName b)
                 (snd (getItemVariationId cfg P start))) = None"
    using c cid by simp
  have 2: "handler cfg P req =
           (case place_order cfg P b v None
                   (snd (getOrCreateCustomer P (customerName b)
                          (snd (getItemVariationId cfg P start)))) of
              (Inl e, st) \<Rightarrow>
                (Inr \<lparr>status = 500, headers = cors, sent = Failure (error_text e)\<rparr>, st)
            | (Inr json, st) \<Rightarrow> (Inr \<lparr>status = 200, headers = cors, sent = json\<rparr>, st))"
  proof -
    have "place_order cfg P b v None
            (snd (getOrCreateCustomer P (customerName b)
                   (snd (getItemVariationId cfg P start)))) = (x, st)"
      using p c cid by simp
    then show ?thesis
      by (cases x) (simp_all only: h sum.case prod.case)
  qed
  have 3: "\<exists>r. CreateOrder r \<in> set (calls (snd (handler cfg P req)))
                  \<and> ord_customerId r = None \<and> ord_lineItems r = lis"
    if "lineItems v (items b) = Inr lis" for lis
  proof -
    from p have "CreateOrder (order_request_of cfg None lis (uuid P (drawn s1))) \<in> set (calls st)"
      by (cases rule: place_order_cases) (use that cid in simp_all)
    then show ?thesis
      unfolding st by (rule exI [where x = "order_request_of cfg None lis (uuid P (drawn s1))", OF conjI])
        (simp_all add: order_request_of_def)
  qed
  have 4: "ord_customerId r = None"
    if "CreateOrder r \<in> set (calls (snd (handler cfg P req)))" for r
  proof -
    from that obtain b' v' cid' s1' lis res where
      "method req = ''POST''" "body req = Body b'"
      "fst (getItemVariationId cfg P start) = Some v'" "v' \<noteq> []"
      "getOrCreateCustomer P (customerName b') (snd (getItemVariationId cfg P start)) = (cid', s1')"
      "lineItems v' (items b') = Inr lis"
      "r = order_request_of cfg cid' lis (uuid P (drawn s1'))"
      "place_order cfg P b' v' cid' s1' = (res, snd (handler cfg P req))"
      by (rule handler_CreateOrder)
    then show ?thesis using b c cid by (simp add: order_request_of_def)
  qed
  have 5: "pay_customerId q = None"
    if "CreatePayment q \<in> set (calls (snd (handler cfg P req)))" for q
  proof -
    from that obtain b' v' cid' s1' lis ores ord cents res where
      "method req = ''POST''" "body req = Body b'"
      "fst (getItemVariationId cfg P start) = Some v'" "v' \<noteq> []"
      "getOrCreateCustomer P (customerName b') (snd (getItemVariationId cfg P start)) = (cid', s1')"
      "lineItems v' (items b') = Inr lis"
      "createOrder P (order_request_of cfg cid' lis (uuid P (drawn s1'))) = Inr ores"
      "created_order ores = Some ord"
      "BigInt (Math_round (multiply (ToNumber (amount b')) (Fin 100))) = Inr cents"
      "q = payment_request_of cfg b' cid' ord (uuid P (Suc (drawn s1'))) cents"
      "calls (snd (handler cfg P req)) =
         calls s1' @ [CreateOrder (order_request_of cfg cid' lis (uuid P (drawn s1'))), CreatePayment q]"
      "place_order cfg P b' v' cid' s1' = (res, snd (handler cfg P req))"
      by (rule handler_CreatePayment)
    then show ?thesis using b c cid by (simp add: payment_request_of_def)
  qed
  from 3 have every: "\<forall>lis. lineItems v (items b) = Inr lis \<longrightarrow>
                 (\<exists>r. CreateOrder r \<in> set (calls (snd (handler cfg P req)))
                      \<and> ord_customerId r = None \<and> ord_lineItems r = lis)"
    by blast
  show ?thesis
  proof (intro conjI allI impI)
    show "\<exists>b. body req = Body b
           \<and> fst (getOrCreateCustomer P (customerName b) (snd (getItemVariationId cfg P start)))
               = None
           \<and> handler cfg P req =
               (case place_order cfg P b v None
                       (snd (getOrCreateCustomer P (customerName b)
                              (snd (getItemVariationId cfg P start)))) of
                  (Inl e, st) \<Rightarrow>
                    (Inr \<lparr>status = 500, headers = cors, sent = Failure (error_text e)\<rparr>, st)
                | (Inr json, st) \<Rightarrow> (Inr \<lparr>status = 200, headers = cors, sent = json\<rparr>, st))
           \<and> (\<forall>lis. lineItems v (items b) = Inr lis \<longrightarrow>
                 (\<exists>r. CreateOrder r \<in> set (calls (snd (handler cfg P req)))
                      \<and> ord_customerId r = None \<and> ord_lineItems r = lis))"
      by (rule exI [where x = b]) (intro conjI b 1 2 every)
  qed (erule 4, erule 5)
qed

theorem customer_failure_is_swallowed_witness:
  "SearchCustomers ''ann_lee'' \<in> set (calls (snd (handler example_config search_down example_request)))
 \<and> searchCustomers search_down ''ann_lee'' = Inl rejection
 \<and> fst (getOrCreateCustomer search_down (customerName example_body)
         (snd (getItemVariationId example_config search_down start))) = None
 \<and> (\<exists>r. CreateOrder r \<in> set (calls (snd (handler example_config search_down example_request)))
        \<and> ord_customerId r = None \<and> ord_lineItems r = ord_lineItems example_order)
 \<and> fst (handler example_config search_down example_request)
     = Inr \<lparr>status = 200, headers = cors, sent = Success ''PAY1'' ''ORD1'' ''COMPLETED''\<rparr>"
proof -
  have m: "method example_request = ''POST''"
    by (simp add: example_request_def)
  have b: "body example_request = Body example_body"
    by (simp add: example_request_def)
  have s: "SearchCustomers ''ann_lee''
             \<in> set (calls (snd (handler example_config search_down example_request)))"
    by (simp add: search_down_run)
  have r: "searchCustomers search_down ''ann_lee'' = Inl rejection"
    by (simp add: search_down_def)
  have ok: "fst (handler example_config search_down example_request)
     = Inr \<lparr>status = 200, headers = cors, sent = Success ''PAY1'' ''ORD1'' ''COMPLETED''\<rparr>"
    by (simp add: search_down_run)
  have h: "(\<exists>k e. SearchCustomers k \<in> set (calls (snd (handler example_config search_down example_request)))
                \<and> searchCustomers search_down k = Inl e)
       \<or> (\<exists>q e. CreateCustomer q \<in> set (calls (snd (handler example_config search_down example_request)))
                \<and> createCustomer search_down q = Inl e)"
    using s r by blast
  have l: "lineItems ''VAR1'' (items example_body) = Inr (ord_lineItems example_order)"
    by (simp add: lineItems_def lineItem_def example_body_def example_order_def
          ToNumber_def String_str_def run_facts)
  have ne: "''VAR1'' \<noteq> []"
    by simp
  from customer_failure_is_swallowed [OF m search_down_variation ne h] obtain b' where
    "body example_request = Body b'"
    and "fst (getOrCreateCustomer search_down (customerName b')
         (snd (getItemVariationId example_config search_down start))) = None"
    and "\<forall>lis. lineItems ''VAR1'' (items b') = Inr lis \<longrightarrow>
           (\<exists>r. CreateOrder r \<in> set (calls (snd (handler example_config search_down example_request)))
                \<and> ord_customerId r = None \<and> ord_lineItems r = lis)"
    by blast
  with b l have "fst (getOrCreateCustomer search_down (customerName example_body)
         (snd (getItemVariationId example_config search_down start))) = None"
    and "\<exists>r. CreateOrder r \<in> set (calls (snd (handler example_config search_down example_request)))
        \<and> ord_customerId r = None \<and> ord_lineItems r = ord_lineItems example_order"
    by simp_all
  with s r ok show ?thesis
    by (intro conjI)
qed

section \<open>The catalog variation\<close>

text \<open>
  Claim C7. The resolver of the catalog variation returns the identifier of the first
  entry of the variation list of the configured catalog item when that list is not empty,
  and \<open>null\<close> when the list is empty, when the reply has no list (no object, no item data
  or no variations), and when the remote call fails. The selection does not depend on the
  request: the resolver takes none of it, in every state its result is the same and its
  only effect is the catalog call for the configured item; every \<open>POST\<close> that has a
  body starts with that call and makes no other catalog call, and every line item of the
  order carries the identifier the resolver returned.
\<close>

theorem first_variation_is_selected:
  "(retrieveCatalogObject P (CATALOG_ITEM_ID cfg) True = Inr r \<and> object r = Some it
      \<and> itemData it = Some d \<and> variations d = Some (v # vs)
      \<longrightarrow> fst (getItemVariationId cfg P s) = Some (variation_id v))
 \<and> (retrieveCatalogObject P (CATALOG_ITEM_ID cfg) True = Inr r
      \<and> (object r = None
         \<or> object r = Some it
           \<and> (itemData it = None
              \<or> itemData it = Some d \<and> (variations d = None \<or> variations d = Some [])))
      \<longrightarrow> fst (getItemVariationId cfg P s) = None)
 \<and> (retrieveCatalogObject P (CATALOG_ITEM_ID cfg) True = Inl e
      \<longrightarrow> fst (getItemVariationId cfg P s) = None)
 \<and> fst (getItemVariationId cfg P s) = fst (getItemVariationId cfg P start)
 \<and> calls (snd (getItemVariationId cfg P s))
     = calls s @ [RetrieveCatalogObject (CATALOG_ITEM_ID cfg) True]
 \<and> (method req = ''POST'' \<and> body req = Body b \<longrightarrow>
      (\<exists>rest. calls (snd (handler cfg P req)) = RetrieveCatalogObject (CATALOG_ITEM_ID cfg) True # rest
         \<and> (\<forall>i c. RetrieveCatalogObject i c \<notin> set rest)
         \<and> (\<forall>q li. CreateOrder q \<in> set rest \<and> li \<in> set (ord_lineItems q)
               \<longrightarrow> Some (li_catalogObjectId li) = fst (getItemVariationId cfg P start))))"
proof (intro conjI impI)
  assume "method req = ''POST'' \<and> body req = Body b"
  then have post: "method req = ''POST''" and body: "body req = Body b"
    by simp_all
  obtain res st where h: "handler cfg P req = (res, st)" by force
  have shape: "\<exists>rest. calls st = RetrieveCatalogObject (CATALOG_ITEM_ID cfg) True # rest
      \<and> (\<forall>i c. RetrieveCatalogObject i c \<notin> set rest)"
    if c: "getOrCreateCustomer P (customerName b') (snd (getItemVariationId cfg P start)) = (cid, s1)"
      and p: "place_order cfg P b' v' cid s1 = (x, st)" for b' cid s1 v' x
  proof -
    from c have "\<exists>more. calls s1 = RetrieveCatalogObject (CATALOG_ITEM_ID cfg) True # more
        \<and> (\<forall>i c. RetrieveCatalogObject i c \<notin> set more)"
      by (cases rule: getOrCreateCustomer_cases) (simp_all add: catalog_state_calls)
    then obtain more where "calls s1 = RetrieveCatalogObject (CATALOG_ITEM_ID cfg) True # more"
      and "\<forall>i c. RetrieveCatalogObject i c \<notin> set more"
      by blast
    with p show ?thesis
      by (cases rule: place_order_cases) simp_all
  qed
  from h have "\<exists>rest. calls st = RetrieveCatalogObject (CATALOG_ITEM_ID cfg) True # rest
      \<and> (\<forall>i c. RetrieveCatalogObject i c \<notin> set rest)"
  proof (cases rule: handler_cases)
    case preflight
    with post show ?thesis by simp
  next
    case not_allowed
    with post show ?thesis by simp
  next
    case (no_body e')
    with body show ?thesis by auto
  next
    case (unconfigured b')
    then show ?thesis by simp
  next
    case (caught b' v' cid s1 e')
    then show ?thesis using shape by blast
  next
    case (answered b' v' cid s1 json)
    then show ?thesis using shape by blast
  qed
  then obtain rest where rest: "calls st = RetrieveCatalogObject (CATALOG_ITEM_ID cfg) True # rest"
    "\<forall>i c. RetrieveCatalogObject i c \<notin> set rest"
    by blast
  have "Some (li_catalogObjectId li) = fst (getItemVariationId cfg P start)"
    if q: "CreateOrder q \<in> set rest" and li: "li \<in> set (ord_lineItems q)" for q li
  proof -
    from q rest h have "CreateOrder q \<in> set (calls (snd (handler cfg P req)))" by simp
    then obtain b' v' cid s1 lis res' where
      "method req = ''POST''" "body req = Body b'"
      and v': "fst (getItemVariationId cfg P start) = Some v'" and "v' \<noteq> []"
      and "getOrCreateCustomer P (customerName b') (snd (getItemVariationId cfg P start)) = (cid, s1)"
      and l: "lineItems v' (items b') = Inr lis"
      and r: "q = order_request_of cfg cid lis (uuid P (drawn s1))"
      and "place_order cfg P b' v' cid s1 = (res', snd (handler cfg P req))"
      by (rule handler_CreateOrder)
    from l obtain its where "list_all2 (\<lambda>it li. lineItem v' (Element it) = Inr li) its lis"
      by (rule lineItems_Inr)
    moreover have "li \<in> set lis" using li r by (simp add: order_request_of_def)
    ultimately obtain it where "lineItem v' (Element it) = Inr li"
      by (auto simp: list_all2_conv_all_nth in_set_conv_nth)
    then have "li_catalogObjectId li = v'" by (rule lineItem_Inr)
    with v' show ?thesis by simp
  qed
  with rest h show "\<exists>rest. calls (snd (handler cfg P req))
         = RetrieveCatalogObject (CATALOG_ITEM_ID cfg) True # rest
         \<and> (\<forall>i c. RetrieveCatalogObject i c \<notin> set rest)
         \<and> (\<forall>q li. CreateOrder q \<in> set rest \<and> li \<in> set (ord_lineItems q)
               \<longrightarrow> Some (li_catalogObjectId li) = fst (getItemVariationId cfg P start))"
    by auto
qed (auto simp: getItemVariationId_result getItemVariationId_state)

theorem first_variation_is_selected_witness:
  "fst (getItemVariationId example_config (catalog_replies two_variations) start) = Some ''VARA''
 \<and> fst (getItemVariationId example_config (catalog_replies empty_variations) start) = None
 \<and> fst (getItemVariationId example_config (catalog_replies absent_variations) start) = None
 \<and> fst (getItemVariationId example_config (catalog_replies absent_data) start) = None
 \<and> fst (getItemVariationId example_config (catalog_replies absent_object) start) = None
 \<and> fst (getItemVariationId example_config catalog_down start) = None
 \<and> hd (calls (snd (handler example_config example_platform example_request)))
      = RetrieveCatalogObject ''ITEM'' True"
proof -
  let ?a = "\<lparr>variation_id = ''VARA''\<rparr>" and ?b = "\<lparr>variation_id = ''VARB''\<rparr>"
  let ?d = "\<lparr>variations = Some [?a, ?b]\<rparr>"
  let ?it = "\<lparr>itemData = Some ?d\<rparr>"
  note t = first_variation_is_selected [where cfg = example_config and s = start
      and req = example_request and b = example_body and e = rejection]
  have m: "method example_request = ''POST'' \<and> body example_request = Body example_body"
    by (simp add: example_request_def)
  have 1: "fst (getItemVariationId example_config (catalog_replies two_variations) start)
      = Some ''VARA''"
    using t [of "catalog_replies two_variations" two_variations ?it ?d ?a "[?b]"]
    by (simp add: catalog_replies_def two_variations_def)
  have 2: "fst (getItemVariationId example_config (catalog_replies empty_variations) start) = None"
    using t [of "catalog_replies empty_variations" empty_variations
        "\<lparr>itemData = Some \<lparr>variations = Some []\<rparr>\<rparr>" "\<lparr>variations = Some []\<rparr>" ?a "[]"]
    by (simp add: catalog_replies_def empty_variations_def)
  have 3: "fst (getItemVariationId example_config (catalog_replies absent_variations) start) = None"
    using t [of "catalog_replies absent_variations" absent_variations
        "\<lparr>itemData = Some \<lparr>variations = None\<rparr>\<rparr>" "\<lparr>variations = None\<rparr>" ?a "[]"]
    by (simp add: catalog_replies_def absent_variations_def)
  have 4: "fst (getItemVariationId example_config (catalog_replies absent_data) start) = None"
    using t [of "catalog_replies absent_data" absent_data "\<lparr>itemData = None\<rparr>" ?d ?a "[]"]
    by (simp add: catalog_replies_def absent_data_def)
  have 5: "fst (getItemVariationId example_config (catalog_replies absent_object) start) = None"
    using t [of "catalog_replies absent_object" absent_object ?it ?d ?a "[]"]
    by (simp add: catalog_replies_def absent_object_def)
  have 6: "fst (getItemVariationId example_config catalog_down start) = None"
    using t [of catalog_down two_variations ?it ?d ?a "[]"]
    by (simp add: catalog_down_def)
  from m t [of example_platform two_variations ?it ?d ?a "[]"]
  have "\<exists>rest. calls (snd (handler example_config example_platform example_request))
      = RetrieveCatalogObject (CATALOG_ITEM_ID example_config) True # rest"
    by blast
  then have 7: "hd (calls (snd (handler example_config example_platform example_request)))
      = RetrieveCatalogObject ''ITEM'' True"
    by (auto simp: example_config_def)
  from 1 2 3 4 5 6 7 show ?thesis
    by (intro conjI)
qed

section \<open>The reference key of a customer\<close>

text \<open>
  Claim C2, as the code has it. For every customer name the resolver searches for the
  name in lower case with every run of white space replaced by one underscore, the runs
  at the two ends included: nothing is trimmed. That key is the key of the specification
  (\<open>spec_key\<close>: trimmed, then collapsed) with one underscore before it when the name
  starts with white space and one after it when the name ends with white space; it holds
  no white space. \<open>Jane Q. Public\<close> gives \<open>jane_q._public\<close>, and \<open>Bob Lee\<close> written with
  two spaces before, three inside and one after gives \<open>_bob_lee_\<close>. The search is the
  first call of the resolver, and the creation request, when one is made, carries the
  same key.
\<close>

theorem reference_key:
  "(\<exists>new. calls (snd (getOrCreateCustomer P (Some n) s))
            = calls s @ SearchCustomers (replace_spaces (toLowerCase n)) # new
         \<and> (new = [] \<or> (\<exists>q. new = [CreateCustomer q]
                \<and> cust_referenceId q = replace_spaces (toLowerCase n))))
 \<and> replace_spaces (toLowerCase n) =
       (if n \<noteq> [] \<and> is_space (hd n) then ''_'' else [])
       @ spec_key n
       @ (if trim n \<noteq> [] \<and> is_space (last n) then ''_'' else [])
 \<and> (\<forall>c \<in> set (replace_spaces (toLowerCase n)). \<not> is_space c)
 \<and> replace_spaces (toLowerCase ''Jane Q. Public'') = ''jane_q._public''
 \<and> replace_spaces (toLowerCase ''  Bob   Lee '') = ''_bob_lee_''"
proof (intro conjI)
  obtain cid s1 where c: "getOrCreateCustomer P (Some n) s = (cid, s1)" by force
  then have "\<exists>new. calls s1 = calls s @ SearchCustomers (replace_spaces (toLowerCase n)) # new
         \<and> (new = [] \<or> (\<exists>q. new = [CreateCustomer q]
                \<and> cust_referenceId q = replace_spaces (toLowerCase n)))"
    by (cases rule: getOrCreateCustomer_cases) (simp_all add: customer_request_of_def Let_def)
  with c show "\<exists>new. calls (snd (getOrCreateCustomer P (Some n) s))
            = calls s @ SearchCustomers (replace_spaces (toLowerCase n)) # new
         \<and> (new = [] \<or> (\<exists>q. new = [CreateCustomer q]
                \<and> cust_referenceId q = replace_spaces (toLowerCase n)))"
    by simp
next
  show "\<forall>c \<in> set (replace_spaces (toLowerCase n)). \<not> is_space c"
    using replace_spaces_no_space by blast
qed (rule lower_key_shape key_Jane key_Bob)+

theorem reference_key_witness:
  "calls (snd (getOrCreateCustomer example_platform (Some ''  Bob   Lee '') start))
     = [SearchCustomers (''_'' @ spec_key ''  Bob   Lee '' @ ''_''),
        CreateCustomer (customer_request_of ''  Bob   Lee '' ''uuid-0'')]
 \<and> cust_referenceId (customer_request_of ''  Bob   Lee '' ''uuid-0'')
     = ''_'' @ spec_key ''  Bob   Lee '' @ ''_''"
proof -
  have t: "trim ''  Bob   Lee '' \<noteq> []" by code_simp
  have h: "is_space (hd ''  Bob   Lee '')" "is_space (last ''  Bob   Lee '')" by code_simp+
  have run: "calls (snd (getOrCreateCustomer example_platform (Some ''  Bob   Lee '') start))
     = [SearchCustomers (replace_spaces (toLowerCase ''  Bob   Lee '')),
        CreateCustomer (customer_request_of ''  Bob   Lee '' ''uuid-0'')]"
    by (simp add: getOrCreateCustomer_def example_platform_def start_def remote_def randomUUID_def)
  from reference_key [of example_platform "''  Bob   Lee ''" start]
  have k: "replace_spaces (toLowerCase ''  Bob   Lee '') =
       (if ''  Bob   Lee '' \<noteq> [] \<and> is_space (hd ''  Bob   Lee '') then ''_'' else [])
       @ spec_key ''  Bob   Lee ''
       @ (if trim ''  Bob   Lee '' \<noteq> [] \<and> is_space (last ''  Bob   Lee '') then ''_'' else [])"
    by blast
  have "replace_spaces (toLowerCase ''  Bob   Lee '') = ''_'' @ spec_key ''  Bob   Lee '' @ ''_''"
    by (subst k) (simp only: t h if_True simp_thms list.distinct)
  then show ?thesis
    by (simp only: run customer_request_of_def Let_def create_customer_request.simps simp_thms)
qed

text \<open>
  Claim C2 as it is written asks for the key \<open>bob_lee\<close> for that name. The resolver
  searches for \<open>_bob_lee_\<close> and creates the customer under it.
\<close>

theorem reference_key_is_not_trimmed:
  "calls (snd (getOrCreateCustomer example_platform (Some ''  Bob   Lee '') start))
     = [SearchCustomers ''_bob_lee_'',
        CreateCustomer \<lparr>cust_givenName = ''Bob'', cust_familyName = ''  Lee'',
                         cust_referenceId = ''_bob_lee_'', cust_idempotencyKey = ''uuid-0''\<rparr>]
 \<and> spec_key ''  Bob   Lee '' = ''bob_lee''
 \<and> ''_bob_lee_'' \<noteq> ''bob_lee''"
  by (simp add: getOrCreateCustomer_def example_platform_def start_def remote_def randomUUID_def
        customer_request_of_def key_Bob parts_Bob join_Bob spec_key_Bob)

section \<open>Prices in minor units\<close>

text \<open>
  Claim C1, as the code has it. For every line item of an order the handler sends, the
  base price in minor units is \<open>Math.round\<close> of the Number \<open>price * 100\<close>: the product is
  first rounded to the nearest binary64 value (\<open>fl\<close>), and that value \<open>x\<close> is then rounded
  to \<open>\<lfloor>x + 1/2\<rfloor>\<close>. The line items correspond one to one to the items of the request,
  which are all objects. The amount of the payment is the same function of \<open>amount\<close>. A
  price written \<open>12.345\<close> gives 1235 minor units and an amount written \<open>9.999\<close> gives 1000.
\<close>

theorem minor_units:
  "(CreateOrder r \<in> set (calls (snd (handler cfg P req))) \<longrightarrow>
      (\<exists>b its. body req = Body b \<and> items b = ItemsArray (map Element its)
         \<and> length (ord_lineItems r) = length its
         \<and> (\<forall>i < length its. \<exists>x.
               multiply (ToNumber (price (its ! i))) (Fin 100) = Fin x
             \<and> money_amount (li_basePriceMoney (ord_lineItems r ! i)) = \<lfloor>x + 1 / 2\<rfloor>)))
 \<and> (CreatePayment p \<in> set (calls (snd (handler cfg P req))) \<longrightarrow>
      (\<exists>b x. body req = Body b \<and> multiply (ToNumber (amount b)) (Fin 100) = Fin x
          \<and> money_amount (pay_amountMoney p) = \<lfloor>x + 1 / 2\<rfloor>))
 \<and> multiply (Fin y) (Fin 100) = fl (y * 100)
 \<and> BigInt (Math_round (multiply (decimal 12345 3) (Fin 100))) = Inr 1235
 \<and> BigInt (Math_round (multiply (decimal 9999 3) (Fin 100))) = Inr 1000"
proof (intro conjI impI)
  assume "CreateOrder r \<in> set (calls (snd (handler cfg P req)))"
  then obtain b v cid s1 lis res where
    "method req = ''POST''" and b: "body req = Body b"
    and "fst (getItemVariationId cfg P start) = Some v" "v \<noteq> []"
    "getOrCreateCustomer P (customerName b) (snd (getItemVariationId cfg P start)) = (cid, s1)"
    and l: "lineItems v (items b) = Inr lis"
    and r: "r = order_request_of cfg cid lis (uuid P (drawn s1))"
    and "place_order cfg P b v cid s1 = (res, snd (handler cfg P req))"
    by (rule handler_CreateOrder)
  from l obtain its where its: "items b = ItemsArray (map Element its)"
    and all: "list_all2 (\<lambda>it li. lineItem v (Element it) = Inr li) its lis"
    by (rule lineItems_Inr)
  have lis: "ord_lineItems r = lis" by (simp add: r order_request_of_def)
  have len: "length lis = length its" using all by (simp add: list_all2_lengthD)
  have "\<exists>x. multiply (ToNumber (price (its ! i))) (Fin 100) = Fin x
             \<and> money_amount (li_basePriceMoney (lis ! i)) = \<lfloor>x + 1 / 2\<rfloor>"
    if "i < length its" for i
  proof -
    from all that have "lineItem v (Element (its ! i)) = Inr (lis ! i)"
      by (simp add: list_all2_conv_all_nth)
    then have "BigInt (Math_round (multiply (ToNumber (price (its ! i))) (Fin 100)))
        = Inr (money_amount (li_basePriceMoney (lis ! i)))"
      by (rule lineItem_Inr) simp
    then show ?thesis by (rule BigInt_Math_round) blast
  qed
  with b its len lis show "\<exists>b its. body req = Body b \<and> items b = ItemsArray (map Element its)
         \<and> length (ord_lineItems r) = length its
         \<and> (\<forall>i < length its. \<exists>x.
               multiply (ToNumber (price (its ! i))) (Fin 100) = Fin x
             \<and> money_amount (li_basePriceMoney (ord_lineItems r ! i)) = \<lfloor>x + 1 / 2\<rfloor>)"
    by auto
next
  assume "CreatePayment p \<in> set (calls (snd (handler cfg P req)))"
  then obtain b v cid s1 lis ores ord cents res where
    "method req = ''POST''" and body: "body req = Body b"
    and "fst (getItemVariationId cfg P start) = Some v" "v \<noteq> []"
    "getOrCreateCustomer P (customerName b) (snd (getItemVariationId cfg P start)) = (cid, s1)"
    "lineItems v (items b) = Inr lis"
    "createOrder P (order_request_of cfg cid lis (uuid P (drawn s1))) = Inr ores"
    "created_order ores = Some ord"
    and b: "BigInt (Math_round (multiply (ToNumber (amount b)) (Fin 100))) = Inr cents"
    and p: "p = payment_request_of cfg b cid ord (uuid P (Suc (drawn s1))) cents"
    and "calls (snd (handler cfg P req)) =
       calls s1 @ [CreateOrder (order_request_of cfg cid lis (uuid P (drawn s1))), CreatePayment p]"
    and "place_order cfg P b v cid s1 = (res, snd (handler cfg P req))"
    by (rule handler_CreatePayment)
  have "money_amount (pay_amountMoney p) = cents" by (simp add: p payment_request_of_def)
  with b body show "\<exists>b x. body req = Body b \<and> multiply (ToNumber (amount b)) (Fin 100) = Fin x
          \<and> money_amount (pay_amountMoney p) = \<lfloor>x + 1 / 2\<rfloor>"
    by (elim BigInt_Math_round) blast
qed (simp, rule cents_12_345, rule cents_9_999)

theorem minor_units_witness:
  "CreateOrder rounding_order
     \<in> set (calls (snd (handler example_config example_platform rounding_request)))
 \<and> CreatePayment rounding_payment
     \<in> set (calls (snd (handler example_config example_platform rounding_request)))
 \<and> body rounding_request = Body rounding_body
 \<and> items rounding_body
     = ItemsArray [Element \<lparr>name = Some ''Latte'', quantity = Some (Fin 2),
                             price = Some (decimal 12345 3), comment = None\<rparr>]
 \<and> multiply (decimal 12345 3) (Fin 100) = Fin (2469 / 2)
 \<and> money_amount (li_basePriceMoney (ord_lineItems rounding_order ! 0)) = \<lfloor>2469 / 2 + 1 / 2 :: rat\<rfloor>
 \<and> amount rounding_body = Some (decimal 9999 3)
 \<and> multiply (decimal 9999 3) (Fin 100) = Fin (8795213412905780 / 2 ^ 43)
 \<and> money_amount (pay_amountMoney rounding_payment) = \<lfloor>8795213412905780 / 2 ^ 43 + 1 / 2 :: rat\<rfloor>"
proof -
  note t = minor_units [of rounding_order example_config example_platform rounding_request
      rounding_payment 0]
  let ?it = "\<lparr>name = Some ''Latte'', quantity = Some (Fin 2), price = Some (decimal 12345 3),
      comment = None\<rparr>"
  have body: "body rounding_request = Body rounding_body"
    by (simp add: rounding_request_def)
  have i: "items rounding_body = ItemsArray [Element ?it]"
    by (simp add: rounding_body_def)
  have a: "amount rounding_body = Some (decimal 9999 3)"
    by (simp add: rounding_body_def)
  from t rounding_calls(1) obtain b its where "body rounding_request = Body b"
    and its: "items b = ItemsArray (map Element its)"
    and each: "\<forall>i < length its. \<exists>x.
               multiply (ToNumber (price (its ! i))) (Fin 100) = Fin x
             \<and> money_amount (li_basePriceMoney (ord_lineItems rounding_order ! i)) = \<lfloor>x + 1 / 2\<rfloor>"
    by blast
  with body i have "map Element its = [Element ?it]"
    by simp
  then have "its = [?it]"
    by (cases its) auto
  with each obtain x where "multiply (decimal 12345 3) (Fin 100) = Fin x"
    and "money_amount (li_basePriceMoney (ord_lineItems rounding_order ! 0)) = \<lfloor>x + 1 / 2\<rfloor>"
    by (auto simp: ToNumber_def)
  moreover from this(1) have "x = 2469 / 2"
    by (simp only: product_12_345 js_number.inject)
  ultimately have 1: "money_amount (li_basePriceMoney (ord_lineItems rounding_order ! 0))
      = \<lfloor>2469 / 2 + 1 / 2 :: rat\<rfloor>"
    by (simp only:)
  from t rounding_calls(2) obtain b' z where "body rounding_request = Body b'"
    and "multiply (ToNumber (amount b')) (Fin 100) = Fin z"
    and "money_amount (pay_amountMoney rounding_payment) = \<lfloor>z + 1 / 2\<rfloor>"
    by blast
  with body have "multiply (ToNumber (amount rounding_body)) (Fin 100) = Fin z"
    and z: "money_amount (pay_amountMoney rounding_payment) = \<lfloor>z + 1 / 2\<rfloor>"
    by simp_all
  from this(1) have "z = 8795213412905780 / 2 ^ 43"
    by (simp only: a ToNumber_def option.case product_9_999 js_number.inject)
  with z have 2: "money_amount (pay_amountMoney rounding_payment)
      = \<lfloor>8795213412905780 / 2 ^ 43 + 1 / 2 :: rat\<rfloor>"
    by (simp only:)
  from rounding_calls body i a 1 2 product_12_345 product_9_999 show ?thesis
    by (intro conjI)
qed

text \<open>
  Claim C1 as it is written makes the base price \<open>price * 100\<close> rounded half up at the
  cent boundary. A request with an item priced \<open>1.005\<close> and an item priced \<open>0.015\<close>, and
  the amount \<open>1.005\<close>, sends 100 and 2 minor units in the order and 100 in the payment.
  Half up, the decimal \<open>1.005\<close> makes 101; and the Number that \<open>0.015\<close> denotes lies
  below \<open>0.015\<close>, so that a hundred times its exact value rounds half up to 1. Neither
  the decimal price nor the exact value of the Number gives both amounts.
\<close>

theorem half_cent_prices_are_not_rounded_up:
  "body boundary_request = Body boundary_body
 \<and> items boundary_body
     = ItemsArray [Element \<lparr>name = Some ''Latte'', quantity = Some (Fin 2),
                             price = Some (decimal 1005 3), comment = None\<rparr>,
                   Element \<lparr>name = Some ''Mint'', quantity = Some (Fin 2),
                             price = Some (decimal 15 3), comment = None\<rparr>]
 \<and> amount boundary_body = Some (decimal 1005 3)
 \<and> map amounts (calls (snd (handler example_config example_platform boundary_request)))
     = [[], [], [], [100, 2], [100]]
 \<and> \<lfloor>(1005 / 1000 :: rat) * 100 + 1 / 2\<rfloor> = 101
 \<and> decimal 15 3 = Fin (8646911284551352 / 2 ^ 59)
 \<and> \<lfloor>(8646911284551352 / 2 ^ 59 :: rat) * 100 + 1 / 2\<rfloor> = 1"
proof (intro conjI)
  show "\<lfloor>(1005 / 1000 :: rat) * 100 + 1 / 2\<rfloor> = 101"
    by (simp add: floor_rat_numeral)
  show "\<lfloor>(8646911284551352 / 2 ^ 59 :: rat) * 100 + 1 / 2\<rfloor> = 1"
    by (simp add: floor_rat_numeral)
  show "map amounts (calls (snd (handler example_config example_platform boundary_request)))
     = [[], [], [], [100, 2], [100]]"
    by (rule boundary_run)
  show "decimal 15 3 = Fin (8646911284551352 / 2 ^ 59)"
    by (rule decimal_0_015)
qed (simp_all add: boundary_request_def boundary_body_def)

section \<open>A body without usable items\<close>

text \<open>
  Claim C10, as the code has it. The handler does not validate the body. Take a \<open>POST\<close>
  that has a body whose \<open>items\<close> is not a usable array: it is missing, \<open>null\<close>, not an
  array, or an array with an element that is \<open>null\<close> or whose price times one hundred is
  not a finite Number. Then \<open>items.map\<close> throws, whatever the variation, an error of the
  language, with the message given below for each case (for an array, the error of its
  first unusable element). The answer always has status 500, never a 4xx status, with a
  body \<open>{success: false, error: \<dots>}\<close>, and no order and no payment call is made. When the
  catalog variation resolves, the failure surfaces where the order is built: the \<open>catch\<close>
  of the handler answers with the message of that error, and the remote calls made are the
  catalog call and those of the customer resolution, run before it. The customer search
  is the second call whenever \<open>customerName\<close> is a string; when \<open>customerName\<close> is missing
  too, the resolver throws before it calls the platform, and the catalog call is the only
  remote call of the request.
\<close>

theorem unusable_items_are_caught:
  assumes "method req = ''POST''" and "body req = Body b" and "\<not> usable (items b)"
  shows "\<exists>e. (\<forall>w. lineItems w (items b) = Inl e) \<and> errors e = None
       \<and> (items b = ItemsUndefined
            \<longrightarrow> message e = ''Cannot read properties of undefined (reading 'map')'')
       \<and> (items b = ItemsNull
            \<longrightarrow> message e = ''Cannot read properties of null (reading 'map')'')
       \<and> (items b = ItemsOther \<longrightarrow> message e = ''items.map is not a function'')
       \<and> (\<forall>els. items b = ItemsArray els \<and> first_unusable els = Some ElementNull
            \<longrightarrow> message e = ''Cannot read properties of null (reading 'quantity')'')
       \<and> (\<forall>els it. items b = ItemsArray els \<and> first_unusable els = Some (Element it)
            \<longrightarrow> message e =
                  ''The number '' @ Number_toString (multiply (ToNumber (price it)) (Fin 100))
                  @ '' cannot be converted to a BigInt because it is not an integer'')
       \<and> (\<exists>j. fst (handler cfg P req)
                  = Inr \<lparr>status = 500, headers = cors, sent = Failure j\<rparr>)
       \<and> (\<forall>r. CreateOrder r \<notin> set (calls (snd (handler cfg P req))))
       \<and> (\<forall>p. CreatePayment p \<notin> set (calls (snd (handler cfg P req))))
       \<and> (\<forall>v. fst (getItemVariationId cfg P start) = Some v \<and> v \<noteq> [] \<longrightarrow>
             handler cfg P req
               = (Inr \<lparr>status = 500, headers = cors, sent = Failure (message e)\<rparr>,
                  snd (getOrCreateCustomer P (customerName b)
                        (snd (getItemVariationId cfg P start))))
           \<and> (\<forall>n. customerName b = Some n \<longrightarrow>
                 take 2 (calls (snd (handler cfg P req)))
                   = [RetrieveCatalogObject (CATALOG_ITEM_ID cfg) True,
                      SearchCustomers (replace_spaces (toLowerCase n))])
           \<and> (customerName b = None \<longrightarrow>
                 calls (snd (handler cfg P req))
                   = [RetrieveCatalogObject (CATALOG_ITEM_ID cfg) True]))"
proof -
  from unusable_items [OF assms(3)] obtain e where every: "\<forall>w. lineItems w (items b) = Inl e"
    and plain: "errors e = None"
    and undefined: "items b = ItemsUndefined
      \<longrightarrow> e = TypeError ''Cannot read properties of undefined (reading 'map')''"
    and null: "items b = ItemsNull
      \<longrightarrow> e = TypeError ''Cannot read properties of null (reading 'map')''"
    and other: "items b = ItemsOther \<longrightarrow> e = TypeError ''items.map is not a function''"
    and element: "\<forall>els el. items b = ItemsArray els \<and> first_unusable els = Some el \<longrightarrow>
           e = (case el of
                  ElementNull \<Rightarrow> TypeError ''Cannot read properties of null (reading 'quantity')''
                | Element it \<Rightarrow> not_an_integer (multiply (ToNumber (price it)) (Fin 100)))"
    by (elim exE conjE)
  from every have e: "lineItems w (items b) = Inl e" for w
    by simp
  have shown: "error_text e = message e"
    using plain by (simp add: error_text_message)
  have m1: "items b = ItemsUndefined
      \<longrightarrow> message e = ''Cannot read properties of undefined (reading 'map')''"
    using undefined by (simp add: TypeError_def)
  have m2: "items b = ItemsNull
      \<longrightarrow> message e = ''Cannot read properties of null (reading 'map')''"
    using null by (simp add: TypeError_def)
  have m3: "items b = ItemsOther \<longrightarrow> message e = ''items.map is not a function''"
    using other by (simp add: TypeError_def)
  have m4: "\<forall>els. items b = ItemsArray els \<and> first_unusable els = Some ElementNull
      \<longrightarrow> message e = ''Cannot read properties of null (reading 'quantity')''"
    using element by (auto simp: TypeError_def)
  have m5: "\<forall>els it. items b = ItemsArray els \<and> first_unusable els = Some (Element it)
      \<longrightarrow> message e =
            ''The number '' @ Number_toString (multiply (ToNumber (price it)) (Fin 100))
            @ '' cannot be converted to a BigInt because it is not an integer''"
    using element by (auto simp: not_an_integer_def RangeError_def)
  have no_order: "CreateOrder r \<notin> set (calls (snd (handler cfg P req)))" for r
  proof
    assume "CreateOrder r \<in> set (calls (snd (handler cfg P req)))"
    then obtain b' v' cid s1 lis res where
      "method req = ''POST''" "body req = Body b'"
      "fst (getItemVariationId cfg P start) = Some v'" "v' \<noteq> []"
      "getOrCreateCustomer P (customerName b') (snd (getItemVariationId cfg P start)) = (cid, s1)"
      "lineItems v' (items b') = Inr lis"
      "r = order_request_of cfg cid lis (uuid P (drawn s1))"
      "place_order cfg P b' v' cid s1 = (res, snd (handler cfg P req))"
      by (rule handler_CreateOrder)
    then show False using assms(2) e [of v'] by simp
  qed
  have no_payment: "CreatePayment p \<notin> set (calls (snd (handler cfg P req)))" for p
  proof
    assume "CreatePayment p \<in> set (calls (snd (handler cfg P req)))"
    then obtain b' v' cid s1 lis ores ord cents res where
      "method req = ''POST''" "body req = Body b'"
      "fst (getItemVariationId cfg P start) = Some v'" "v' \<noteq> []"
      "getOrCreateCustomer P (customerName b') (snd (getItemVariationId cfg P start)) = (cid, s1)"
      "lineItems v' (items b') = Inr lis"
      "createOrder P (order_request_of cfg cid lis (uuid P (drawn s1))) = Inr ores"
      "created_order ores = Some ord"
      "BigInt (Math_round (multiply (ToNumber (amount b')) (Fin 100))) = Inr cents"
      "p = payment_request_of cfg b' cid ord (uuid P (Suc (drawn s1))) cents"
      "calls (snd (handler cfg P req)) =
         calls s1 @ [CreateOrder (order_request_of cfg cid lis (uuid P (drawn s1))), CreatePayment p]"
      "place_order cfg P b' v' cid s1 = (res, snd (handler cfg P req))"
      by (rule handler_CreatePayment)
    then show False using assms(2) e [of v'] by simp
  qed
  have resolved: "handler cfg P req =
      (Inr \<lparr>status = 500, headers = cors, sent = Failure (message e)\<rparr>,
       snd (getOrCreateCustomer P (customerName b) (snd (getItemVariationId cfg P start))))"
    if v: "fst (getItemVariationId cfg P start) = Some v" "v \<noteq> []" for v
  proof -
    obtain cid s1 where
      c: "getOrCreateCustomer P (customerName b) (snd (getItemVariationId cfg P start)) = (cid, s1)"
      by force
    have "place_order cfg P b v cid s1 = (Inl e, s1)"
      by (simp add: place_order_def e)
    from handler_resolved [OF assms(1,2) v c this] c show ?thesis
      by (simp add: shown)
  qed
  have status: "\<exists>j. fst (handler cfg P req)
      = Inr \<lparr>status = 500, headers = cors, sent = Failure j\<rparr>"
  proof (cases "fst (getItemVariationId cfg P start) = None \<or> fst (getItemVariationId cfg P start) = Some []")
    case True
    then show ?thesis using handler_unresolved [OF assms(1,2), of cfg P] by simp
  next
    case False
    then obtain v where "fst (getItemVariationId cfg P start) = Some v" "v \<noteq> []" by auto
    then show ?thesis using resolved [of v] by simp
  qed
  have search: "take 2 (calls (snd (getOrCreateCustomer P (Some n) (snd (getItemVariationId cfg P start)))))
      = [RetrieveCatalogObject (CATALOG_ITEM_ID cfg) True, SearchCustomers (replace_spaces (toLowerCase n))]"
    for n
  proof -
    obtain cid s1 where
      c: "getOrCreateCustomer P (Some n) (snd (getItemVariationId cfg P start)) = (cid, s1)"
      by force
    then have "take 2 (calls s1)
        = [RetrieveCatalogObject (CATALOG_ITEM_ID cfg) True, SearchCustomers (replace_spaces (toLowerCase n))]"
      by (cases rule: getOrCreateCustomer_cases) (simp_all add: catalog_state_calls)
    with c show ?thesis by simp
  qed
  have none: "calls (snd (getOrCreateCustomer P None (snd (getItemVariationId cfg P start))))
      = [RetrieveCatalogObject (CATALOG_ITEM_ID cfg) True]"
    by (simp add: getOrCreateCustomer_def catalog_state_calls)
  have after: "\<forall>v. fst (getItemVariationId cfg P start) = Some v \<and> v \<noteq> [] \<longrightarrow>
             handler cfg P req
               = (Inr \<lparr>status = 500, headers = cors, sent = Failure (message e)\<rparr>,
                  snd (getOrCreateCustomer P (customerName b)
                        (snd (getItemVariationId cfg P start))))
           \<and> (\<forall>n. customerName b = Some n \<longrightarrow>
                 take 2 (calls (snd (handler cfg P req)))
                   = [RetrieveCatalogObject (CATALOG_ITEM_ID cfg) True,
                      SearchCustomers (replace_spaces (toLowerCase n))])
           \<and> (customerName b = None \<longrightarrow>
                 calls (snd (handler cfg P req))
                   = [RetrieveCatalogObject (CATALOG_ITEM_ID cfg) True])"
  proof (intro allI impI conjI)
    fix v
    assume v: "fst (getItemVariationId cfg P start) = Some v \<and> v \<noteq> []"
    then show "handler cfg P req
               = (Inr \<lparr>status = 500, headers = cors, sent = Failure (message e)\<rparr>,
                  snd (getOrCreateCustomer P (customerName b)
                        (snd (getItemVariationId cfg P start))))"
      using resolved [of v] by simp
    show "take 2 (calls (snd (handler cfg P req)))
        = [RetrieveCatalogObject (CATALOG_ITEM_ID cfg) True,
           SearchCustomers (replace_spaces (toLowerCase n))]"
      if "customerName b = Some n" for n
      using v that resolved [of v] search [of n] by simp
    show "calls (snd (handler cfg P req)) = [RetrieveCatalogObject (CATALOG_ITEM_ID cfg) True]"
      if "customerName b = None"
      using v that resolved [of v] none by simp
  qed
  from no_order have o: "\<forall>r. CreateOrder r \<notin> set (calls (snd (handler cfg P req)))"
    by blast
  from no_payment have p: "\<forall>p. CreatePayment p \<notin> set (calls (snd (handler cfg P req)))"
    by blast
  show ?thesis
    by (rule exI [where x = e]) (intro conjI every plain m1 m2 m3 m4 m5 status o p after)
qed

theorem unusable_items_are_caught_witness:
  "map (\<lambda>v. fst (handler example_config example_platform (with_items v)))
     [ItemsUndefined, ItemsNull, ItemsOther, ItemsArray [ElementNull],
      ItemsArray [Element unpriced]]
     = map (\<lambda>m. Inr \<lparr>status = 500, headers = cors, sent = Failure m\<rparr>)
         [''Cannot read properties of undefined (reading 'map')'',
          ''Cannot read properties of null (reading 'map')'',
          ''items.map is not a function'',
          ''Cannot read properties of null (reading 'quantity')'',
          ''The number NaN cannot be converted to a BigInt because it is not an integer'']
 \<and> map (\<lambda>v. take 2 (calls (snd (handler example_config example_platform (with_items v)))))
     [ItemsUndefined, ItemsNull, ItemsOther, ItemsArray [ElementNull],
      ItemsArray [Element unpriced]]
     = replicate 5 [RetrieveCatalogObject ''ITEM'' True, SearchCustomers ''ann_lee'']"
proof -
  have m: "method (with_items v) = ''POST''"
    and b: "body (with_items v) = Body (example_body\<lparr>items := v\<rparr>)" for v
    by (simp_all add: with_items_def)
  have n: "customerName (example_body\<lparr>items := v\<rparr>) = Some ''Ann Lee''" for v
    by (simp add: example_body_def)
  have run: "fst (handler example_config example_platform (with_items v))
        = Inr \<lparr>status = 500, headers = cors, sent = Failure t\<rparr>
      \<and> take 2 (calls (snd (handler example_config example_platform (with_items v))))
        = [RetrieveCatalogObject ''ITEM'' True, SearchCustomers ''ann_lee'']"
    if u: "\<not> usable v"
      and t: "\<And>e. lineItems ''VAR1'' v = Inl e \<Longrightarrow>
          (v = ItemsUndefined
            \<longrightarrow> message e = ''Cannot read properties of undefined (reading 'map')'') \<Longrightarrow>
          (v = ItemsNull
            \<longrightarrow> message e = ''Cannot read properties of null (reading 'map')'') \<Longrightarrow>
          (v = ItemsOther \<longrightarrow> message e = ''items.map is not a function'') \<Longrightarrow>
          (\<forall>els. v = ItemsArray els \<and> first_unusable els = Some ElementNull
            \<longrightarrow> message e = ''Cannot read properties of null (reading 'quantity')'') \<Longrightarrow>
          (\<forall>els it. v = ItemsArray els \<and> first_unusable els = Some (Element it)
            \<longrightarrow> message e =
                  ''The number '' @ Number_toString (multiply (ToNumber (price it)) (Fin 100))
                  @ '' cannot be converted to a BigInt because it is not an integer'') \<Longrightarrow>
          message e = t"
    for v t
  proof -
    let ?b = "example_body\<lparr>items := v\<rparr>"
    have iv: "items ?b = v"
      by simp
    have u': "\<not> usable (items ?b)"
      using u by simp
    from unusable_items_are_caught [OF m b u', of example_config example_platform]
    obtain e where "\<forall>w. lineItems w (items ?b) = Inl e"
      and "items ?b = ItemsUndefined
            \<longrightarrow> message e = ''Cannot read properties of undefined (reading 'map')''"
      and "items ?b = ItemsNull
            \<longrightarrow> message e = ''Cannot read properties of null (reading 'map')''"
      and "items ?b = ItemsOther \<longrightarrow> message e = ''items.map is not a function''"
      and "\<forall>els. items ?b = ItemsArray els \<and> first_unusable els = Some ElementNull
            \<longrightarrow> message e = ''Cannot read properties of null (reading 'quantity')''"
      and "\<forall>els it. items ?b = ItemsArray els \<and> first_unusable els = Some (Element it)
            \<longrightarrow> message e =
                  ''The number '' @ Number_toString (multiply (ToNumber (price it)) (Fin 100))
                  @ '' cannot be converted to a BigInt because it is not an integer''"
      and after: "\<forall>w. fst (getItemVariationId example_config example_platform start) = Some w
             \<and> w \<noteq> [] \<longrightarrow>
             handler example_config example_platform (with_items v)
               = (Inr \<lparr>status = 500, headers = cors, sent = Failure (message e)\<rparr>,
                  snd (getOrCreateCustomer example_platform (customerName ?b)
                        (snd (getItemVariationId example_config example_platform start))))
           \<and> (\<forall>n. customerName ?b = Some n \<longrightarrow>
                 take 2 (calls (snd (handler example_config example_platform (with_items v))))
                   = [RetrieveCatalogObject (CATALOG_ITEM_ID example_config) True,
                      SearchCustomers (replace_spaces (toLowerCase n))])
           \<and> (customerName ?b = None \<longrightarrow>
                 calls (snd (handler example_config example_platform (with_items v)))
                   = [RetrieveCatalogObject (CATALOG_ITEM_ID example_config) True])"
      by (elim exE conjE)
    then have "message e = t"
      unfolding iv by (intro t) simp_all
    moreover have ne: "''VAR1'' \<noteq> []"
      by simp
    from after example_variation ne
    have answer: "handler example_config example_platform (with_items v)
               = (Inr \<lparr>status = 500, headers = cors, sent = Failure (message e)\<rparr>,
                  snd (getOrCreateCustomer example_platform (customerName ?b)
                        (snd (getItemVariationId example_config example_platform start))))"
      and named: "\<forall>n. customerName ?b = Some n \<longrightarrow>
                 take 2 (calls (snd (handler example_config example_platform (with_items v))))
                   = [RetrieveCatalogObject (CATALOG_ITEM_ID example_config) True,
                      SearchCustomers (replace_spaces (toLowerCase n))]"
      by blast+
    from answer have "fst (handler example_config example_platform (with_items v))
        = Inr \<lparr>status = 500, headers = cors, sent = Failure (message e)\<rparr>"
      by (simp only: fst_conv)
    moreover from named n [of v]
    have "take 2 (calls (snd (handler example_config example_platform (with_items v))))
        = [RetrieveCatalogObject (CATALOG_ITEM_ID example_config) True,
           SearchCustomers (replace_spaces (toLowerCase ''Ann Lee''))]"
      by blast
    ultimately show ?thesis
      by (simp add: key_Ann example_config_def)
  qed
  have f: "first_unusable [Element unpriced] = Some (Element unpriced)"
    "first_unusable [ElementNull] = Some ElementNull"
    by (simp_all add: first_unusable_def priced_def unpriced_def ToNumber_def)
  have p: "price unpriced = None"
    by (simp add: unpriced_def)
  have 1: "fst (handler example_config example_platform (with_items ItemsUndefined))
        = Inr \<lparr>status = 500, headers = cors,
                sent = Failure ''Cannot read properties of undefined (reading 'map')''\<rparr>
      \<and> take 2 (calls (snd (handler example_config example_platform (with_items ItemsUndefined))))
        = [RetrieveCatalogObject ''ITEM'' True, SearchCustomers ''ann_lee'']"
    by (rule run) simp_all
  have 2: "fst (handler example_config example_platform (with_items ItemsNull))
        = Inr \<lparr>status = 500, headers = cors,
                sent = Failure ''Cannot read properties of null (reading 'map')''\<rparr>
      \<and> take 2 (calls (snd (handler example_config example_platform (with_items ItemsNull))))
        = [RetrieveCatalogObject ''ITEM'' True, SearchCustomers ''ann_lee'']"
    by (rule run) simp_all
  have 3: "fst (handler example_config example_platform (with_items ItemsOther))
        = Inr \<lparr>status = 500, headers = cors, sent = Failure ''items.map is not a function''\<rparr>
      \<and> take 2 (calls (snd (handler example_config example_platform (with_items ItemsOther))))
        = [RetrieveCatalogObject ''ITEM'' True, SearchCustomers ''ann_lee'']"
    by (rule run) simp_all
  have 4: "fst (handler example_config example_platform (with_items (ItemsArray [ElementNull])))
        = Inr \<lparr>status = 500, headers = cors,
                sent = Failure ''Cannot read properties of null (reading 'quantity')''\<rparr>
      \<and> take 2 (calls (snd (handler example_config example_platform
                               (with_items (ItemsArray [ElementNull])))))
        = [RetrieveCatalogObject ''ITEM'' True, SearchCustomers ''ann_lee'']"
    by (rule run) (simp_all add: f)
  have 5: "fst (handler example_config example_platform (with_items (ItemsArray [Element unpriced])))
        = Inr \<lparr>status = 500, headers = cors,
                sent = Failure
                  ''The number NaN cannot be converted to a BigInt because it is not an integer''\<rparr>
      \<and> take 2 (calls (snd (handler example_config example_platform
                               (with_items (ItemsArray [Element unpriced])))))
        = [RetrieveCatalogObject ''ITEM'' True, SearchCustomers ''ann_lee'']"
    by (rule run) (simp_all add: f p priced_def ToNumber_def)
  from 1 2 3 4 5 show ?thesis
    by (simp add: numeral_eq_Suc)
qed

text \<open>
  Claim C10 as it is written has the customer calls made before the failure is reported,
  and every such \<open>POST\<close> answered with a 500. For a body with no property at all the
  handler answers 500 after the catalog call alone; and a \<open>POST\<close> without body, which
  has no items either, is not answered: line 74 throws before any call.
\<close>

theorem missing_name_and_items:
  "body nameless_request = Body empty_body \<and> items empty_body = ItemsUndefined
 \<and> customerName empty_body = None
 \<and> handler example_config example_platform nameless_request =
     (Inr \<lparr>status = 500, headers = cors,
            sent = Failure ''Cannot read properties of undefined (reading 'map')''\<rparr>,
      \<lparr>calls = [RetrieveCatalogObject ''ITEM'' True], drawn = 0\<rparr>)
 \<and> body bodyless_request = BodyUndefined
 \<and> handler example_config example_platform bodyless_request =
     (Inl (TypeError ''Cannot destructure property 'sourceId' of 'req.body' as it is undefined.''),
      \<lparr>calls = [], drawn = 0\<rparr>)"
  by (simp add: run_defs nameless_request_def empty_body_def bodyless_request_def
        error_text_def TypeError_def cannot_destructure_def)

end
